theory Spec2Isabelle
  imports Main
begin

section \<open>Data model\<close>

text \<open>
  The entities of \<^verbatim>\<open>blimp_boards/boards/models.py\<close> and
  \<^verbatim>\<open>blimp_boards/cards/models.py\<close>. A model instance is a record, a table is the
  list of its rows in insertion order, a nullable column is an \<open>option\<close>, and a primary key
  is \<open>None\<close> until the row has been written. Python tests an object reference for truth
  by comparing it with \<open>None\<close> and a string by comparing it with the empty string.
\<close>

record user =
  user_id :: nat
  user_first_name :: string
  user_last_name :: string
  user_email :: string

text \<open>\<open>account_owner_user\<close> is what the source reads as \<^verbatim>\<open>account.owner.user\<close>.\<close>

record account =
  account_id :: nat
  account_owner_user :: user

record board =
  board_id :: "nat option"
  board_name :: string
  board_slug :: string
  board_account :: account
  board_created_by :: nat
  board_is_shared :: bool
  board_thumbnail_sm_path :: string
  board_thumbnail_md_path :: string
  board_thumbnail_lg_path :: string

record board_collaborator =
  bc_id :: "nat option"
  bc_board :: "nat option"
  bc_user :: "nat option"
  bc_invited_user :: "nat option"
  bc_permission :: string

definition READ_PERMISSION :: string where
  "READ_PERMISSION = ''read''"

definition WRITE_PERMISSION :: string where
  "WRITE_PERMISSION = ''write''"

record card =
  card_id :: "nat option"
  card_name :: string
  card_type :: string
  card_slug :: string
  card_board :: nat
  card_created_by :: nat
  card_stack :: "nat option"
  card_featured :: bool
  card_origin_url :: string
  card_content :: string
  card_is_shared :: bool
  card_thumbnail_sm_path :: string
  card_thumbnail_md_path :: string
  card_thumbnail_lg_path :: string
  card_file_size :: "int option"
  card_mime_type :: "string option"

text \<open>
  \<^verbatim>\<open>InvitedUser\<close> (the invitations application) with the fields that
  \<^verbatim>\<open>BoardCollaboratorRequest.accept\<close> passes to its constructor.
\<close>

record invited_user =
  iu_id :: "nat option"
  iu_first_name :: string
  iu_last_name :: string
  iu_email :: string
  iu_user :: "user option"
  iu_account :: account
  iu_created_by :: user

record collaborator_request =
  req_id :: "nat option"
  req_first_name :: string
  req_last_name :: string
  req_email :: string
  req_user :: "user option"
  req_board :: board
  req_message :: string

record mail =
  mail_subject :: string
  mail_body :: string
  mail_from :: string
  mail_to :: "string list"

record preview_request =
  pr_url :: string
  pr_sizes :: "string list"
  pr_metadata :: "(string \<times> nat option) list"

text \<open>
  The persistent store and the outside world the code writes to: one list per table, the
  two many-to-many tables as lists of pairs (\<open>invited_user_board_collaborators\<close> for
  \<^verbatim>\<open>InvitedUser.board_collaborators\<close>, \<open>card_cards\<close> for \<^verbatim>\<open>Card.cards\<close>, stack first),
  and a log for each outgoing call (invites delivered, mails sent, previews queued).
\<close>

record store =
  users :: "user list"
  boards :: "board list"
  board_collaborators :: "board_collaborator list"
  invited_users :: "invited_user list"
  invited_user_board_collaborators :: "(nat \<times> nat) list"
  collaborator_requests :: "collaborator_request list"
  cards :: "card list"
  card_cards :: "(nat \<times> nat) list"
  sent_invites :: "nat list"
  outbox :: "mail list"
  preview_queue :: "preview_request list"

datatype error =
    ValidationError "string list"
  | DoesNotExist
  | MultipleObjectsReturned
  | ValueError
  | AssertionError
  | DatabaseError
  | DeliveryError

text \<open>
  What the code does not decide: which writes and deliveries the store and the transports
  refuse (\<open>faults\<close>), and what the framework's per-field validators
  (\<^verbatim>\<open>Model.clean_fields\<close>) report for an instance in a store, as pairs of field name
  and message.
\<close>

datatype effect =
    InsertInvitedUser
  | InsertBoardCollaborator
  | AddBoardCollaborator
  | SendInvite
  | DeleteCollaboratorRequest
  | WriteCollaboratorRequest
  | WriteBoard
  | WriteCard
  | SendMail

record env =
  faults :: "effect set"
  collaborator_field_errors :: "store \<Rightarrow> board_collaborator \<Rightarrow> (string \<times> string) list"
  request_field_errors :: "store \<Rightarrow> collaborator_request \<Rightarrow> (string \<times> string) list"
  card_field_errors :: "store \<Rightarrow> card \<Rightarrow> (string \<times> string) list"

text \<open>
  A call that may raise returns the exception or its value, together with the store as the
  call left it: no operation of the source opens a transaction, so a write made before an
  exception stays written. \<open>try_bind\<close> sequences two such calls, as two statements in a
  row do.
\<close>

type_synonym 'a result = "(error + 'a) \<times> store"

definition try_bind :: "'a result \<Rightarrow> ('a \<Rightarrow> store \<Rightarrow> 'b result) \<Rightarrow> 'b result" where
  "try_bind r f = (case r of (Inl e, s) \<Rightarrow> (Inl e, s) | (Inr a, s) \<Rightarrow> f a s)"

text \<open>The primary key an insert assigns: one more than the largest in the table.\<close>

definition next_pk :: "nat option list \<Rightarrow> nat" where
  "next_pk pks = Suc (fold max (map (\<lambda>p. case p of None \<Rightarrow> 0 | Some n \<Rightarrow> n) pks) 0)"

text \<open>
  \<^verbatim>\<open>Model.full_clean\<close>: the field validators, then \<^verbatim>\<open>clean\<close>, then the uniqueness
  checks on the fields that passed; every message is collected and one
  \<^verbatim>\<open>ValidationError\<close> raised when there is any.
\<close>

definition full_clean ::
  "(string \<times> string) list \<Rightarrow> error + unit \<Rightarrow> (string list \<Rightarrow> string list) \<Rightarrow> error + unit" where
  "full_clean field_errors cleaned validate_unique =
     (case cleaned of
        Inl (ValidationError ms) \<Rightarrow>
          Inl (ValidationError
                 (map snd field_errors @ ms @ validate_unique (map fst field_errors)))
      | Inl e \<Rightarrow> Inl e
      | Inr _ \<Rightarrow>
          (let errors = map snd field_errors @ validate_unique (map fst field_errors)
           in if errors = [] then Inr () else Inl (ValidationError errors)))"

section \<open>Board permission check\<close>

text \<open>
  \<^verbatim>\<open>Board.is_user_collaborator(self, user, permission=None)\<close>: the collaborator rows of
  this board and this user, narrowed by the permission asked for, and whether any is left.
  A permission that is neither \<^verbatim>\<open>'read'\<close> nor \<^verbatim>\<open>'write'\<close> narrows nothing, as in the
  source's \<^verbatim>\<open>if\<close>/\<^verbatim>\<open>elif\<close> without \<^verbatim>\<open>else\<close>.
\<close>

definition is_user_collaborator ::
  "store \<Rightarrow> board \<Rightarrow> user \<Rightarrow> string option \<Rightarrow> bool" where
  "is_user_collaborator s self usr permission =
     (let collaborators =
            filter (\<lambda>c. bc_board c = board_id self \<and> bc_user c = Some (user_id usr))
              (board_collaborators s);
          collaborators' =
            (if permission = Some READ_PERMISSION then
               filter (\<lambda>c. bc_permission c = WRITE_PERMISSION \<or>
                            bc_permission c = READ_PERMISSION) collaborators
             else if permission = Some WRITE_PERMISSION then
               filter (\<lambda>c. bc_permission c = WRITE_PERMISSION) collaborators
             else collaborators)
      in collaborators' \<noteq> [])"

section \<open>Card validation\<close>

text \<open>
  \<^verbatim>\<open>getattr(self, field)\<close> in a condition: the truth value of the named attribute. A
  string is true when it is not empty, \<^verbatim>\<open>file_size\<close> when it is neither \<^verbatim>\<open>None\<close> nor
  zero, \<^verbatim>\<open>mime_type\<close> when it is neither \<^verbatim>\<open>None\<close> nor empty.
\<close>

definition disallowed_fields :: "string list" where
  "disallowed_fields =
     [''origin_url'', ''content'', ''thumbnail_sm_path'',
      ''thumbnail_md_path'', ''thumbnail_lg_path'',
      ''file_size'', ''mime_type'']"

definition getattr_true :: "card \<Rightarrow> string \<Rightarrow> bool" where
  "getattr_true self field =
     (if field = ''origin_url'' then card_origin_url self \<noteq> []
      else if field = ''content'' then card_content self \<noteq> []
      else if field = ''thumbnail_sm_path'' then card_thumbnail_sm_path self \<noteq> []
      else if field = ''thumbnail_md_path'' then card_thumbnail_md_path self \<noteq> []
      else if field = ''thumbnail_lg_path'' then card_thumbnail_lg_path self \<noteq> []
      else if field = ''file_size'' then
        (case card_file_size self of None \<Rightarrow> False | Some n \<Rightarrow> n \<noteq> 0)
      else if field = ''mime_type'' then
        (case card_mime_type self of None \<Rightarrow> False | Some m \<Rightarrow> m \<noteq> [])
      else False)"

text \<open>
  \<^verbatim>\<open>Card.clean\<close>: a card that is not a stack needs content; a stack is checked field by
  field in the order of \<open>disallowed_fields\<close>, and the first field that is set raises.
\<close>

definition card_clean :: "card \<Rightarrow> error + unit" where
  "card_clean self =
     (if card_type self \<noteq> ''stack'' then
        (if card_content self = [] then
           Inl (ValidationError [''The `content` field is required.''])
         else Inr ())
      else
        (case find (getattr_true self) disallowed_fields of
           Some field \<Rightarrow>
             Inl (ValidationError
                    [''The `'' @ field @ ''` field should not be set on a card stack.''])
         | None \<Rightarrow> Inr ()))"

section \<open>Board collaborators\<close>

text \<open>\<^verbatim>\<open>BoardCollaborator.clean\<close>: exactly one of user and invited user is set.\<close>

definition board_collaborator_clean :: "board_collaborator \<Rightarrow> error + unit" where
  "board_collaborator_clean self =
     (if bc_user self \<noteq> None \<and> bc_invited_user self \<noteq> None then
        Inl (ValidationError [''Both user and invited_user cannot be set together.''])
      else if bc_user self = None \<and> bc_invited_user self = None then
        Inl (ValidationError [''Either user or invited_user must be set.''])
      else Inr ())"

text \<open>
  The uniqueness checks of \<^verbatim>\<open>Meta.unique_together\<close>, (board, user) and
  (board, invited_user), as \<^verbatim>\<open>Model.validate_unique\<close> runs them: a pair with an
  excluded or a null field is not checked, and a row that is being edited is not compared
  with itself.
\<close>

definition board_collaborator_validate_unique ::
  "store \<Rightarrow> board_collaborator \<Rightarrow> string list \<Rightarrow> string list" where
  "board_collaborator_validate_unique s self exclude =
     (let others = filter (\<lambda>c. bc_id self = None \<or> bc_id c \<noteq> bc_id self)
                     (board_collaborators s)
      in (if ''board'' \<notin> set exclude \<and> ''user'' \<notin> set exclude \<and>
             bc_board self \<noteq> None \<and> bc_user self \<noteq> None \<and>
             filter (\<lambda>c. bc_board c = bc_board self \<and> bc_user c = bc_user self) others \<noteq> []
          then [''Board collaborator with this Board and User already exists.'']
          else []) @
         (if ''board'' \<notin> set exclude \<and> ''invited_user'' \<notin> set exclude \<and>
             bc_board self \<noteq> None \<and> bc_invited_user self \<noteq> None \<and>
             filter (\<lambda>c. bc_board c = bc_board self \<and>
                          bc_invited_user c = bc_invited_user self) others \<noteq> []
          then [''Board collaborator with this Board and Invited user already exists.'']
          else []))"

text \<open>
  \<^verbatim>\<open>BoardCollaborator.save\<close>: \<^verbatim>\<open>full_clean\<close>, then the framework's save, which
  inserts an instance that has no primary key under a new one and rewrites the row of an
  instance that has one.
\<close>

definition board_collaborator_save ::
  "env \<Rightarrow> store \<Rightarrow> board_collaborator \<Rightarrow> board_collaborator result" where
  "board_collaborator_save e s self =
     (case full_clean (collaborator_field_errors e s self) (board_collaborator_clean self)
             (board_collaborator_validate_unique s self) of
        Inl err \<Rightarrow> (Inl err, s)
      | Inr _ \<Rightarrow>
          (if InsertBoardCollaborator \<in> faults e then (Inl DatabaseError, s)
           else if bc_id self \<noteq> None \<and> bc_id self \<in> bc_id ` set (board_collaborators s) then
             (Inr self,
              s\<lparr>board_collaborators :=
                   map (\<lambda>c. if bc_id c = bc_id self then self else c) (board_collaborators s)\<rparr>)
           else
             (let obj = (if bc_id self = None
                         then self\<lparr>bc_id := Some (next_pk (map bc_id (board_collaborators s)))\<rparr>
                         else self)
              in (Inr obj, s\<lparr>board_collaborators := board_collaborators s @ [obj]\<rparr>))))"

text \<open>
  \<^verbatim>\<open>BoardCollaborator.objects.create(board=..., user=..., invited_user=...,
  permission=...)\<close>: a new instance, saved.
\<close>

definition board_collaborator_create ::
  "env \<Rightarrow> store \<Rightarrow> nat option \<Rightarrow> nat option \<Rightarrow> nat option \<Rightarrow> string \<Rightarrow>
     board_collaborator result" where
  "board_collaborator_create e s board usr invited permission =
     board_collaborator_save e s
       \<lparr>bc_id = None, bc_board = board, bc_user = usr, bc_invited_user = invited,
        bc_permission = permission\<rparr>"

section \<open>Boards\<close>

text \<open>
  The \<^verbatim>\<open>post_save\<close> receiver of \<^verbatim>\<open>Board\<close>: when the board was created, a
  collaborator row for the account owner's user, with write permission.
\<close>

definition create_owner_collaborator :: "env \<Rightarrow> store \<Rightarrow> board \<Rightarrow> bool \<Rightarrow> unit result" where
  "create_owner_collaborator e s instance created =
     (if created then
        (let account_owner = account_owner_user (board_account instance)
         in try_bind
              (board_collaborator_create e s (board_id instance)
                 (Some (user_id account_owner)) None WRITE_PERMISSION)
              (\<lambda>_ s'. (Inr (), s')))
      else (Inr (), s))"

text \<open>
  Saving a \<^verbatim>\<open>Board\<close>: the framework inserts the row (\<open>created\<close> is true) when the
  instance has no primary key or the table has no row with it, and rewrites the row
  otherwise (\<open>created\<close> is false); then the \<^verbatim>\<open>post_save\<close> signal calls the receiver.
  The slug is taken as the instance carries it.
\<close>

definition board_save :: "env \<Rightarrow> store \<Rightarrow> board \<Rightarrow> board result" where
  "board_save e s self =
     (if WriteBoard \<in> faults e then (Inl DatabaseError, s)
      else
        (let created = (board_id self = None \<or> board_id self \<notin> board_id ` set (boards s));
             instance = (if board_id self = None
                         then self\<lparr>board_id := Some (next_pk (map board_id (boards s)))\<rparr>
                         else self);
             s' = (if created then s\<lparr>boards := boards s @ [instance]\<rparr>
                   else s\<lparr>boards := map (\<lambda>b. if board_id b = board_id self then self else b)
                                      (boards s)\<rparr>)
         in try_bind (create_owner_collaborator e s' instance created)
              (\<lambda>_ s''. (Inr instance, s''))))"

section \<open>Collaborator requests\<close>

text \<open>
  \<^verbatim>\<open>User.objects.get(email=...)\<close>: the one user with this address;
  \<^verbatim>\<open>DoesNotExist\<close> when there is none, \<^verbatim>\<open>MultipleObjectsReturned\<close> when there are
  several.
\<close>

definition user_objects_get :: "store \<Rightarrow> string \<Rightarrow> error + user" where
  "user_objects_get s email =
     (case filter (\<lambda>u. user_email u = email) (users s) of
        [] \<Rightarrow> Inl DoesNotExist
      | [u] \<Rightarrow> Inr u
      | _ \<Rightarrow> Inl MultipleObjectsReturned)"

text \<open>
  The first half of \<^verbatim>\<open>BoardCollaboratorRequest.save\<close>, which changes the instance
  before anything is validated: without a user, the user found by the request's address is
  bound (\<^verbatim>\<open>DoesNotExist\<close> is caught, any other exception leaves \<^verbatim>\<open>save\<close>); with a
  user, names and address are copied from it.
\<close>

definition request_bind_user :: "store \<Rightarrow> collaborator_request \<Rightarrow> error + collaborator_request" where
  "request_bind_user s self =
     (case (if req_user self = None then
              (case user_objects_get s (req_email self) of
                 Inr u \<Rightarrow> Inr (self\<lparr>req_user := Some u\<rparr>)
               | Inl DoesNotExist \<Rightarrow> Inr self
               | Inl err \<Rightarrow> Inl err)
            else Inr self) of
        Inl err \<Rightarrow> Inl err
      | Inr self' \<Rightarrow>
          (case req_user self' of
             Some u \<Rightarrow>
               Inr (self'\<lparr>req_first_name := user_first_name u,
                         req_last_name := user_last_name u,
                         req_email := user_email u\<rparr>)
           | None \<Rightarrow> Inr self'))"

text \<open>\<^verbatim>\<open>BoardCollaboratorRequest.clean\<close>: a user or an address is set.\<close>

definition request_clean :: "collaborator_request \<Rightarrow> error + unit" where
  "request_clean self =
     (if req_user self = None \<and> req_email self = [] then
        Inl (ValidationError [''Either user or email must be set.''])
      else Inr ())"

text \<open>The uniqueness checks of the request: (email, board) and (user, board).\<close>

definition request_validate_unique ::
  "store \<Rightarrow> collaborator_request \<Rightarrow> string list \<Rightarrow> string list" where
  "request_validate_unique s self exclude =
     (let others = filter (\<lambda>r. req_id self = None \<or> req_id r \<noteq> req_id self)
                     (collaborator_requests s)
      in (if ''email'' \<notin> set exclude \<and> ''board'' \<notin> set exclude \<and>
             board_id (req_board self) \<noteq> None \<and>
             filter (\<lambda>r. req_email r = req_email self \<and>
                          board_id (req_board r) = board_id (req_board self)) others \<noteq> []
          then [''Board collaborator request with this Email and Board already exists.'']
          else []) @
         (if ''user'' \<notin> set exclude \<and> ''board'' \<notin> set exclude \<and>
             req_user self \<noteq> None \<and> board_id (req_board self) \<noteq> None \<and>
             filter (\<lambda>r. map_option user_id (req_user r) = map_option user_id (req_user self) \<and>
                          board_id (req_board r) = board_id (req_board self)) others \<noteq> []
          then [''Board collaborator request with this User and Board already exists.'']
          else []))"

text \<open>
  \<^verbatim>\<open>BoardCollaboratorRequest.save\<close>: bind the user, \<^verbatim>\<open>full_clean\<close>, then the
  framework's save. The value is the instance as written.
\<close>

definition request_save ::
  "env \<Rightarrow> store \<Rightarrow> collaborator_request \<Rightarrow> collaborator_request result" where
  "request_save e s self =
     (case request_bind_user s self of
        Inl err \<Rightarrow> (Inl err, s)
      | Inr self' \<Rightarrow>
          (case full_clean (request_field_errors e s self') (request_clean self')
                  (request_validate_unique s self') of
             Inl err \<Rightarrow> (Inl err, s)
           | Inr _ \<Rightarrow>
               (if WriteCollaboratorRequest \<in> faults e then (Inl DatabaseError, s)
                else if req_id self' \<noteq> None \<and>
                        req_id self' \<in> req_id ` set (collaborator_requests s) then
                  (Inr self',
                   s\<lparr>collaborator_requests :=
                        map (\<lambda>r. if req_id r = req_id self' then self' else r)
                          (collaborator_requests s)\<rparr>)
                else
                  (let obj = (if req_id self' = None
                              then self'\<lparr>req_id :=
                                     Some (next_pk (map req_id (collaborator_requests s)))\<rparr>
                              else self')
                   in (Inr obj,
                       s\<lparr>collaborator_requests := collaborator_requests s @ [obj]\<rparr>)))))"

text \<open>
  Modelled from the spec: \<^verbatim>\<open>InvitedUser.objects.create\<close> (the invitations application
  is not part of the sources at hand). It constructs an InvitedUser from the data given and
  writes it as one new row, or raises when the store refuses the write.
\<close>

definition invited_user_create :: "env \<Rightarrow> store \<Rightarrow> invited_user \<Rightarrow> invited_user result" where
  "invited_user_create e s invited_user_data =
     (if InsertInvitedUser \<in> faults e then (Inl DatabaseError, s)
      else
        (let obj = invited_user_data\<lparr>iu_id := Some (next_pk (map iu_id (invited_users s)))\<rparr>
         in (Inr obj, s\<lparr>invited_users := invited_users s @ [obj]\<rparr>)))"

text \<open>
  Modelled from the spec: \<^verbatim>\<open>invited_user.board_collaborators.add(board_collaborator)\<close>
  registers the collaborator under the invited user's collaborator set. Both instances
  need a primary key; a pair already in the set is not added again.
\<close>

definition board_collaborators_add ::
  "env \<Rightarrow> store \<Rightarrow> invited_user \<Rightarrow> board_collaborator \<Rightarrow> unit result" where
  "board_collaborators_add e s invited_user board_collaborator =
     (case (iu_id invited_user, bc_id board_collaborator) of
        (Some i, Some c) \<Rightarrow>
          (if AddBoardCollaborator \<in> faults e then (Inl DatabaseError, s)
           else if (i, c) \<in> set (invited_user_board_collaborators s) then (Inr (), s)
           else (Inr (), s\<lparr>invited_user_board_collaborators :=
                               invited_user_board_collaborators s @ [(i, c)]\<rparr>))
      | _ \<Rightarrow> (Inl ValueError, s))"

text \<open>
  Modelled from the spec: \<^verbatim>\<open>InvitedUser.send_invite\<close>, the invite delivery, opaque to
  this layer. A delivery is logged under the invited user's key, a failed one raises.
\<close>

definition send_invite :: "env \<Rightarrow> store \<Rightarrow> invited_user \<Rightarrow> unit result" where
  "send_invite e s invited_user =
     (case iu_id invited_user of
        Some i \<Rightarrow>
          (if SendInvite \<in> faults e then (Inl DeliveryError, s)
           else (Inr (), s\<lparr>sent_invites := sent_invites s @ [i]\<rparr>))
      | None \<Rightarrow> (Inl ValueError, s))"

text \<open>
  \<^verbatim>\<open>self.delete()\<close> on a request: the framework asserts that the instance has a primary
  key and deletes the row with it.
\<close>

definition request_delete :: "env \<Rightarrow> store \<Rightarrow> collaborator_request \<Rightarrow> unit result" where
  "request_delete e s self =
     (case req_id self of
        None \<Rightarrow> (Inl AssertionError, s)
      | Some i \<Rightarrow>
          (if DeleteCollaboratorRequest \<in> faults e then (Inl DatabaseError, s)
           else (Inr (), s\<lparr>collaborator_requests :=
                               filter (\<lambda>r. req_id r \<noteq> Some i) (collaborator_requests s)\<rparr>)))"

text \<open>
  \<^verbatim>\<open>BoardCollaboratorRequest.accept\<close>: the five statements of the source in their
  order, each on the store the one before left.
\<close>

definition invited_user_data :: "collaborator_request \<Rightarrow> invited_user" where
  "invited_user_data self =
     \<lparr>iu_id = None,
      iu_first_name = req_first_name self,
      iu_last_name = req_last_name self,
      iu_email = req_email self,
      iu_user = req_user self,
      iu_account = board_account (req_board self),
      iu_created_by = account_owner_user (board_account (req_board self))\<rparr>"

definition accept :: "env \<Rightarrow> store \<Rightarrow> collaborator_request \<Rightarrow> unit result" where
  "accept e s self =
     try_bind (invited_user_create e s (invited_user_data self)) (\<lambda>invited_user s1.
     try_bind (board_collaborator_create e s1 (board_id (req_board self)) None
                 (iu_id invited_user) READ_PERMISSION) (\<lambda>board_collaborator s2.
     try_bind (board_collaborators_add e s2 invited_user board_collaborator) (\<lambda>_ s3.
     try_bind (send_invite e s3 invited_user) (\<lambda>_ s4.
     request_delete e s4 self))))"

text \<open>\<^verbatim>\<open>BoardCollaboratorRequest.reject\<close>.\<close>

definition reject :: "env \<Rightarrow> store \<Rightarrow> collaborator_request \<Rightarrow> unit result" where
  "reject e s self = request_delete e s self"

text \<open>
  \<^verbatim>\<open>django.core.mail.send_mail(subject, message, from_email, recipient_list,
  fail_silently)\<close>: the number of messages delivered. A delivery that fails raises, unless
  \<^verbatim>\<open>fail_silently\<close> is set, when it is counted as no message.
\<close>

definition send_mail ::
  "env \<Rightarrow> store \<Rightarrow> string \<Rightarrow> string \<Rightarrow> string \<Rightarrow> string list \<Rightarrow> bool \<Rightarrow> nat result" where
  "send_mail e s subject message from_email recipient_list fail_silently =
     (if SendMail \<in> faults e then
        (if fail_silently then (Inr 0, s) else (Inl DeliveryError, s))
      else
        (Inr 1,
         s\<lparr>outbox := outbox s @
              [\<lparr>mail_subject = subject, mail_body = message, mail_from = from_email,
                mail_to = recipient_list\<rparr>]\<rparr>))"

text \<open>\<^verbatim>\<open>BoardCollaboratorRequest.notify_account_owner\<close>.\<close>

definition notify_account_owner :: "env \<Rightarrow> store \<Rightarrow> collaborator_request \<Rightarrow> nat result" where
  "notify_account_owner e s self =
     (let message = req_email self @ '' wants to join your board''
      in send_mail e s ''Blimp Board Collaborator Request'' message ''from@example.com''
           [req_email self] False)"

section \<open>Card preview requests\<close>

text \<open>
  Modelled from the spec: \<^verbatim>\<open>queue_previews(url, sizes, metadata)\<close> (the files
  application is not part of the sources at hand) submits one preview job and returns
  nothing this layer reads.
\<close>

definition queue_previews ::
  "store \<Rightarrow> string \<Rightarrow> string list \<Rightarrow> (string \<times> nat option) list \<Rightarrow> store" where
  "queue_previews s url sizes metadata =
     s\<lparr>preview_queue := preview_queue s @
          [\<lparr>pr_url = url, pr_sizes = sizes, pr_metadata = metadata\<rparr>]\<rparr>"

text \<open>
  \<^verbatim>\<open>Card.post_save(self, created)\<close>. The call to the base class's \<^verbatim>\<open>post_save\<close> that
  ends it writes to nothing the store here holds.
\<close>

definition post_save :: "store \<Rightarrow> card \<Rightarrow> bool \<Rightarrow> store" where
  "post_save s self created =
     (if created \<and> card_type self = ''file'' then
        (let url = card_content self;
             sizes = [''200x200'', ''500x500'', ''800x800''];
             metadata = [(''cardId'', card_id self)]
         in queue_previews s url sizes metadata)
      else s)"

text \<open>
  \<^verbatim>\<open>Card.pre_save\<close> is \<^verbatim>\<open>full_clean\<close>; the card has no \<^verbatim>\<open>unique_together\<close>.
\<close>

definition pre_save :: "env \<Rightarrow> store \<Rightarrow> card \<Rightarrow> error + unit" where
  "pre_save e s self = full_clean (card_field_errors e s self) (card_clean self) (\<lambda>_. [])"

text \<open>
  Saving a \<^verbatim>\<open>Card\<close>: the \<^verbatim>\<open>pre_save\<close> hook, the write (an insert, with \<open>created\<close>
  true, when the instance has no primary key or the table has no row with it), then the
  \<^verbatim>\<open>post_save\<close> hook. Slug and position are taken as the instance carries them.
\<close>

definition card_save :: "env \<Rightarrow> store \<Rightarrow> card \<Rightarrow> card result" where
  "card_save e s self =
     (case pre_save e s self of
        Inl err \<Rightarrow> (Inl err, s)
      | Inr _ \<Rightarrow>
          (if WriteCard \<in> faults e then (Inl DatabaseError, s)
           else
             (let created = (card_id self = None \<or> card_id self \<notin> card_id ` set (cards s));
                  instance = (if card_id self = None
                              then self\<lparr>card_id := Some (next_pk (map card_id (cards s)))\<rparr>
                              else self);
                  s' = (if created then s\<lparr>cards := cards s @ [instance]\<rparr>
                        else s\<lparr>cards := map (\<lambda>c. if card_id c = card_id self then self else c)
                                          (cards s)\<rparr>)
              in (Inr instance, post_save s' instance created))))"

section \<open>Stack membership\<close>

text \<open>
  The \<^verbatim>\<open>m2m_changed\<close> receiver of \<^verbatim>\<open>Card.cards\<close>. \<open>instance\<close> is the stack whose member
  set changed, \<open>action\<close> the signal's action and \<open>pk_set\<close> the keys it names. Each branch
  is one \<^verbatim>\<open>filter(...).update(stack=...)\<close> over the card table.
\<close>

definition pk_in :: "card \<Rightarrow> nat list \<Rightarrow> bool" where
  "pk_in c pk_set = (case card_id c of Some k \<Rightarrow> k \<in> set pk_set | None \<Rightarrow> False)"

definition cards_changed :: "store \<Rightarrow> card \<Rightarrow> string \<Rightarrow> nat list \<Rightarrow> store" where
  "cards_changed s instance action pk_set =
     (if action = ''post_add'' then
        s\<lparr>cards := map (\<lambda>c. if pk_in c pk_set then c\<lparr>card_stack := card_id instance\<rparr> else c)
                     (cards s)\<rparr>
      else if action = ''post_remove'' then
        s\<lparr>cards := map (\<lambda>c. if pk_in c pk_set \<and> card_stack c = card_id instance
                            then c\<lparr>card_stack := None\<rparr> else c)
                     (cards s)\<rparr>
      else if action = ''post_clear'' then
        s\<lparr>cards := map (\<lambda>c. if card_stack c = card_id instance
                            then c\<lparr>card_stack := None\<rparr> else c)
                     (cards s)\<rparr>
      else s)"

text \<open>
  The three operations of the member set \<^verbatim>\<open>stack.cards\<close> as the framework's related
  manager runs them: \<^verbatim>\<open>add\<close> inserts the pairs that are not there yet and signals
  them, \<^verbatim>\<open>remove\<close> deletes the pairs of the keys given and signals those keys,
  \<^verbatim>\<open>clear\<close> deletes every pair of the stack and signals no keys. Each sends its
  \<^verbatim>\<open>pre_\<close> signal before the table changes and its \<^verbatim>\<open>post_\<close> signal after. A stack
  without a primary key has no member set.
\<close>

definition cards_add :: "store \<Rightarrow> card \<Rightarrow> nat list \<Rightarrow> unit result" where
  "cards_add s instance pks =
     (case card_id instance of
        None \<Rightarrow> (Inl ValueError, s)
      | Some k \<Rightarrow>
          (let new_ids = filter (\<lambda>p. (k, p) \<notin> set (card_cards s)) (remdups pks);
               s1 = cards_changed s instance ''pre_add'' new_ids;
               s2 = s1\<lparr>card_cards := card_cards s1 @ map (Pair k) new_ids\<rparr>
           in (Inr (), cards_changed s2 instance ''post_add'' new_ids)))"

definition cards_remove :: "store \<Rightarrow> card \<Rightarrow> nat list \<Rightarrow> unit result" where
  "cards_remove s instance pks =
     (case card_id instance of
        None \<Rightarrow> (Inl ValueError, s)
      | Some k \<Rightarrow>
          (let old_ids = remdups pks;
               s1 = cards_changed s instance ''pre_remove'' old_ids;
               s2 = s1\<lparr>card_cards :=
                         filter (\<lambda>(a, b). \<not> (a = k \<and> b \<in> set old_ids)) (card_cards s1)\<rparr>
           in (Inr (), cards_changed s2 instance ''post_remove'' old_ids)))"

definition cards_clear :: "store \<Rightarrow> card \<Rightarrow> unit result" where
  "cards_clear s instance =
     (case card_id instance of
        None \<Rightarrow> (Inl ValueError, s)
      | Some k \<Rightarrow>
          (let s1 = cards_changed s instance ''pre_clear'' [];
               s2 = s1\<lparr>card_cards := filter (\<lambda>(a, b). a \<noteq> k) (card_cards s1)\<rparr>
           in (Inr (), cards_changed s2 instance ''post_clear'' [])))"

section \<open>Referential integrity\<close>

text \<open>
  What the store's foreign keys guarantee of the collaborator table: a row's board and a
  row's invited user, when not null, are rows of their tables.
\<close>

definition collaborators_refer_to_rows :: "store \<Rightarrow> bool" where
  "collaborators_refer_to_rows s =
     list_all (\<lambda>c. (bc_board c = None \<or> bc_board c \<in> board_id ` set (boards s)) \<and>
                    (bc_invited_user c = None \<or>
                     bc_invited_user c \<in> iu_id ` set (invited_users s)))
       (board_collaborators s)"

text \<open>
  The back-reference agrees with the member sets in this sense: a card whose \<open>stack\<close> is
  not null is in the member set of that stack.
\<close>

definition stack_refs_members :: "store \<Rightarrow> bool" where
  "stack_refs_members s =
     list_all (\<lambda>c. case card_stack c of
                     None \<Rightarrow> True
                   | Some j \<Rightarrow> (case card_id c of
                                 None \<Rightarrow> False
                               | Some k \<Rightarrow> (j, k) \<in> set (card_cards s)))
       (cards s)"

section \<open>Sample data\<close>

text \<open>
  A small store for running the operations: Ann owns the account of the board Plans and
  is its write collaborator; Bob, a registered user, has asked to join it.
\<close>

definition ann :: user where
  "ann = \<lparr>user_id = 1, user_first_name = ''Ann'', user_last_name = ''Lee'',
          user_email = ''ann@example.com''\<rparr>"

definition bob :: user where
  "bob = \<lparr>user_id = 2, user_first_name = ''Bob'', user_last_name = ''Ray'',
          user_email = ''bob@example.com''\<rparr>"

definition plans :: board where
  "plans = \<lparr>board_id = Some 1, board_name = ''Plans'', board_slug = ''plans'',
            board_account = \<lparr>account_id = 1, account_owner_user = ann\<rparr>,
            board_created_by = 1, board_is_shared = False,
            board_thumbnail_sm_path = [], board_thumbnail_md_path = [],
            board_thumbnail_lg_path = []\<rparr>"

definition bobs_request :: collaborator_request where
  "bobs_request = \<lparr>req_id = Some 1, req_first_name = ''Bob'', req_last_name = ''Ray'',
                   req_email = ''bob@example.com'', req_user = Some bob,
                   req_board = plans, req_message = ''Let me in''\<rparr>"

definition sample_store :: store where
  "sample_store =
     \<lparr>users = [ann, bob],
      boards = [plans],
      board_collaborators =
        [\<lparr>bc_id = Some 1, bc_board = Some 1, bc_user = Some 1, bc_invited_user = None,
          bc_permission = ''write''\<rparr>],
      invited_users = [],
      invited_user_board_collaborators = [],
      collaborator_requests = [bobs_request],
      cards = [],
      card_cards = [],
      sent_invites = [],
      outbox = [],
      preview_queue = []\<rparr>"

text \<open>An environment in which no write or delivery fails and every field validates.\<close>

definition no_faults :: env where
  "no_faults = \<lparr>faults = {}, collaborator_field_errors = (\<lambda>_ _. []),
                request_field_errors = (\<lambda>_ _. []), card_field_errors = (\<lambda>_ _. [])\<rparr>"


text \<open>
  Cards: a stack that is already stored, with a file size of 0 and no other attribute,
  and a file card yet to be stored.
\<close>

definition sample_stack :: card where
  "sample_stack =
     \<lparr>card_id = Some 1, card_name = ''Pile'', card_type = ''stack'', card_slug = ''pile'',
      card_board = 1, card_created_by = 1, card_stack = None, card_featured = False,
      card_origin_url = [], card_content = [], card_is_shared = False,
      card_thumbnail_sm_path = [], card_thumbnail_md_path = [], card_thumbnail_lg_path = [],
      card_file_size = Some 0, card_mime_type = None\<rparr>"

definition sample_file :: card where
  "sample_file =
     \<lparr>card_id = None, card_name = ''Photo'', card_type = ''file'', card_slug = ''photo'',
      card_board = 1, card_created_by = 1, card_stack = None, card_featured = False,
      card_origin_url = [], card_content = ''https://example.com/photo.png'',
      card_is_shared = False,
      card_thumbnail_sm_path = [], card_thumbnail_md_path = [], card_thumbnail_lg_path = [],
      card_file_size = Some 2048, card_mime_type = Some ''image/png''\<rparr>"

text \<open>
  A user stored without an address, a request that names neither a user nor an address,
  and a request that gives Bob's address under another name.
\<close>

definition guest :: user where
  "guest = \<lparr>user_id = 3, user_first_name = ''Guest'', user_last_name = [],
            user_email = []\<rparr>"

definition blank_request :: collaborator_request where
  "blank_request = \<lparr>req_id = None, req_first_name = [], req_last_name = [],
                    req_email = [], req_user = None,
                    req_board = plans, req_message = []\<rparr>"

definition address_request :: collaborator_request where
  "address_request = \<lparr>req_id = None, req_first_name = ''Robert'', req_last_name = [],
                      req_email = ''bob@example.com'', req_user = None,
                      req_board = plans, req_message = ''Hello''\<rparr>"

text \<open>A store with two stored stacks, cards 1 and 2, and the file card stored as card 3.\<close>

definition stacks_store :: store where
  "stacks_store =
     sample_store\<lparr>cards := [sample_stack,
                             sample_stack\<lparr>card_id := Some 2, card_slug := ''heap''\<rparr>,
                             sample_file\<lparr>card_id := Some 3\<rparr>]\<rparr>"

section \<open>Theorems\<close>

subsection \<open>Each step of the request workflow\<close>

lemma try_bind_Inr:
  "try_bind r f = (Inr b, s') \<longleftrightarrow> (\<exists>a s1. r = (Inr a, s1) \<and> f a s1 = (Inr b, s'))"
  by (cases r) (auto simp: try_bind_def split: sum.splits)


lemma invited_user_create_Inr:
  "invited_user_create e s d = (Inr iu, s1) \<longleftrightarrow>
     InsertInvitedUser \<notin> faults e \<and>
     iu = d\<lparr>iu_id := Some (next_pk (map iu_id (invited_users s)))\<rparr> \<and>
     s1 = s\<lparr>invited_users := invited_users s @ [iu]\<rparr>"
  by (auto simp: invited_user_create_def Let_def)


lemma board_collaborator_create_Inr:
  "board_collaborator_create e s b u i p = (Inr c, s1) \<longleftrightarrow>
     full_clean (collaborator_field_errors e s
         \<lparr>bc_id = None, bc_board = b, bc_user = u, bc_invited_user = i, bc_permission = p\<rparr>)
       (board_collaborator_clean
         \<lparr>bc_id = None, bc_board = b, bc_user = u, bc_invited_user = i, bc_permission = p\<rparr>)
       (board_collaborator_validate_unique s
         \<lparr>bc_id = None, bc_board = b, bc_user = u, bc_invited_user = i, bc_permission = p\<rparr>)
       = Inr () \<and>
     InsertBoardCollaborator \<notin> faults e \<and>
     c = \<lparr>bc_id = Some (next_pk (map bc_id (board_collaborators s))), bc_board = b,
          bc_user = u, bc_invited_user = i, bc_permission = p\<rparr> \<and>
     s1 = s\<lparr>board_collaborators := board_collaborators s @ [c]\<rparr>"
  by (auto simp: board_collaborator_create_def board_collaborator_save_def Let_def
      split: sum.splits)


lemma board_collaborators_add_Inr:
  "board_collaborators_add e s iu c = (Inr (), s1) \<longleftrightarrow>
     (\<exists>i k. iu_id iu = Some i \<and> bc_id c = Some k \<and> AddBoardCollaborator \<notin> faults e \<and>
        s1 = (if (i, k) \<in> set (invited_user_board_collaborators s) then s
              else s\<lparr>invited_user_board_collaborators :=
                       invited_user_board_collaborators s @ [(i, k)]\<rparr>))"
  by (auto simp: board_collaborators_add_def split: option.splits)


lemma send_invite_Inr:
  "send_invite e s iu = (Inr (), s1) \<longleftrightarrow>
     (\<exists>i. iu_id iu = Some i \<and> SendInvite \<notin> faults e \<and>
        s1 = s\<lparr>sent_invites := sent_invites s @ [i]\<rparr>)"
  by (auto simp: send_invite_def split: option.splits)


lemma request_delete_Inr:
  "request_delete e s self = (Inr (), s1) \<longleftrightarrow>
     (\<exists>j. req_id self = Some j \<and> DeleteCollaboratorRequest \<notin> faults e \<and>
        s1 = s\<lparr>collaborator_requests :=
                 filter (\<lambda>r. req_id r \<noteq> Some j) (collaborator_requests s)\<rparr>)"
  by (auto simp: request_delete_def split: option.splits)



lemma accept_Inr:
  assumes "accept e s self = (Inr (), s')"
  shows "\<exists>j. req_id self = Some j \<and>
     s' = s\<lparr>invited_users := invited_users s @
               [(invited_user_data self)\<lparr>iu_id := Some (next_pk (map iu_id (invited_users s)))\<rparr>],
            board_collaborators := board_collaborators s @
               [\<lparr>bc_id = Some (next_pk (map bc_id (board_collaborators s))),
                 bc_board = board_id (req_board self), bc_user = None,
                 bc_invited_user = Some (next_pk (map iu_id (invited_users s))),
                 bc_permission = READ_PERMISSION\<rparr>],
            invited_user_board_collaborators :=
               (if (next_pk (map iu_id (invited_users s)),
                    next_pk (map bc_id (board_collaborators s)))
                     \<in> set (invited_user_board_collaborators s)
                then invited_user_board_collaborators s
                else invited_user_board_collaborators s @
                       [(next_pk (map iu_id (invited_users s)),
                         next_pk (map bc_id (board_collaborators s)))]),
            sent_invites := sent_invites s @ [next_pk (map iu_id (invited_users s))],
            collaborator_requests :=
               filter (\<lambda>r. req_id r \<noteq> Some j) (collaborator_requests s)\<rparr>"
  using assms
  by (auto simp: accept_def try_bind_Inr invited_user_create_Inr board_collaborator_create_Inr
    board_collaborators_add_Inr send_invite_Inr request_delete_Inr invited_user_data_def)


lemma fold_max_ge: "(a::nat) \<le> fold max ns a \<and> (\<forall>n \<in> set ns. n \<le> fold max ns a)"
proof (induction ns arbitrary: a)
  case Nil
  show ?case by simp
next
  case (Cons m ns)
  from Cons [of "max m a"] show ?case by auto
qed

lemma next_pk_fresh: "Some (next_pk (map f xs)) \<notin> f ` set xs"
proof
  assume "Some (next_pk (map f xs)) \<in> f ` set xs"
  then obtain x where x: "x \<in> set xs" "f x = Some (next_pk (map f xs))" by auto
  let ?ns = "map (\<lambda>p. case p of None \<Rightarrow> 0 | Some n \<Rightarrow> n) (map f xs)"
  from x have "next_pk (map f xs) \<in> set ?ns" by force
  with fold_max_ge [of 0 ?ns] have "next_pk (map f xs) \<le> fold max ?ns 0" by blast
  then show False by (simp add: next_pk_def)
qed

lemma new_collaborator_unique:
  assumes "collaborators_refer_to_rows s"
  shows "board_collaborator_validate_unique
           (s\<lparr>invited_users := invited_users s @ [iu]\<rparr>)
           \<lparr>bc_id = None, bc_board = b, bc_user = None,
            bc_invited_user = Some (next_pk (map iu_id (invited_users s))),
            bc_permission = p\<rparr> exclude = []"
proof -
  have "\<forall>c \<in> set (board_collaborators s).
          bc_invited_user c \<noteq> Some (next_pk (map iu_id (invited_users s)))"
    using assms next_pk_fresh [of iu_id "invited_users s"]
    unfolding collaborators_refer_to_rows_def list_all_iff by (metis option.distinct(1))
  then show ?thesis
    by (auto simp: board_collaborator_validate_unique_def filter_empty_conv)
qed

lemma accept_succeeds:
  assumes "req_id self \<noteq> None"
    and "faults e \<inter> {InsertInvitedUser, InsertBoardCollaborator, AddBoardCollaborator,
                       SendInvite, DeleteCollaboratorRequest} = {}"
    and "\<forall>t c. collaborator_field_errors e t c = []"
    and "collaborators_refer_to_rows s"
  shows "\<exists>s'. accept e s self = (Inr (), s')"
proof -
  from assms(1) obtain j where j: "req_id self = Some j" by auto
  show ?thesis
    using assms(2,3) j new_collaborator_unique [OF assms(4)]
    by (simp add: accept_def try_bind_Inr invited_user_create_Inr
        board_collaborator_create_Inr board_collaborators_add_Inr send_invite_Inr
        request_delete_Inr full_clean_def board_collaborator_clean_def)
qed



subsection \<open>Permission levels\<close>

text \<open>
  C2. \<open>is_user_collaborator\<close> without a permission is true exactly when the board has a
  collaborator row for the user; asked for \<^verbatim>\<open>'read'\<close>, exactly when it has one with
  permission read or write; asked for \<^verbatim>\<open>'write'\<close>, exactly when it has one with
  permission write. So write implies read, and there is a store where read holds and
  write does not.
\<close>

theorem is_user_collaborator_levels:
  "(is_user_collaborator s b u None \<longleftrightarrow>
      (\<exists>c \<in> set (board_collaborators s).
         bc_board c = board_id b \<and> bc_user c = Some (user_id u))) \<and>
   (is_user_collaborator s b u (Some ''read'') \<longleftrightarrow>
      (\<exists>c \<in> set (board_collaborators s).
         bc_board c = board_id b \<and> bc_user c = Some (user_id u) \<and>
         (bc_permission c = ''read'' \<or> bc_permission c = ''write''))) \<and>
   (is_user_collaborator s b u (Some ''write'') \<longleftrightarrow>
      (\<exists>c \<in> set (board_collaborators s).
         bc_board c = board_id b \<and> bc_user c = Some (user_id u) \<and>
         bc_permission c = ''write'')) \<and>
   (is_user_collaborator s b u (Some ''write'') \<longrightarrow>
      is_user_collaborator s b u (Some ''read'')) \<and>
   (\<exists>s' b' u'. is_user_collaborator s' b' u' (Some ''read'') \<and>
      \<not> is_user_collaborator s' b' u' (Some ''write''))"
proof -
  have none: "is_user_collaborator s b u None \<longleftrightarrow>
      (\<exists>c \<in> set (board_collaborators s).
         bc_board c = board_id b \<and> bc_user c = Some (user_id u))"
    by (auto simp: is_user_collaborator_def filter_empty_conv)
  have rd: "is_user_collaborator s b u (Some ''read'') \<longleftrightarrow>
      (\<exists>c \<in> set (board_collaborators s).
         bc_board c = board_id b \<and> bc_user c = Some (user_id u) \<and>
         (bc_permission c = ''read'' \<or> bc_permission c = ''write''))"
    by (auto simp: is_user_collaborator_def READ_PERMISSION_def WRITE_PERMISSION_def
        filter_empty_conv)
  have wr: "is_user_collaborator s b u (Some ''write'') \<longleftrightarrow>
      (\<exists>c \<in> set (board_collaborators s).
         bc_board c = board_id b \<and> bc_user c = Some (user_id u) \<and>
         bc_permission c = ''write'')"
    by (auto simp: is_user_collaborator_def READ_PERMISSION_def WRITE_PERMISSION_def
        filter_empty_conv)
  have imp: "is_user_collaborator s b u (Some ''write'') \<longrightarrow>
      is_user_collaborator s b u (Some ''read'')"
    unfolding rd wr by blast
  let ?s = "sample_store\<lparr>board_collaborators :=
              [\<lparr>bc_id = Some 1, bc_board = Some 1, bc_user = Some 1,
                bc_invited_user = None, bc_permission = ''read''\<rparr>]\<rparr>"
  have "is_user_collaborator ?s plans ann (Some ''read'') \<and>
        \<not> is_user_collaborator ?s plans ann (Some ''write'')"
    by (simp add: is_user_collaborator_def READ_PERMISSION_def WRITE_PERMISSION_def
        plans_def ann_def)
  then have conv: "\<exists>s' b' u'. is_user_collaborator s' b' u' (Some ''read'') \<and>
      \<not> is_user_collaborator s' b' u' (Some ''write'')"
    by blast
  from none rd wr imp conv show ?thesis by blast
qed

text \<open>In the sample store Ann has write permission on Plans, hence read permission.\<close>

theorem is_user_collaborator_levels_witness:
  "is_user_collaborator sample_store plans ann (Some ''write'') \<and>
   is_user_collaborator sample_store plans ann (Some ''read'')"
proof -
  have w: "is_user_collaborator sample_store plans ann (Some ''write'')"
    by (simp add: is_user_collaborator_def READ_PERMISSION_def WRITE_PERMISSION_def
        sample_store_def plans_def ann_def)
  with is_user_collaborator_levels [of sample_store plans ann] show ?thesis by blast
qed

subsection \<open>Card validation\<close>

lemma find_disallowed_None:
  "find (getattr_true self) disallowed_fields = None \<longleftrightarrow>
     card_origin_url self = [] \<and> card_content self = [] \<and>
     card_thumbnail_sm_path self = [] \<and> card_thumbnail_md_path self = [] \<and>
     card_thumbnail_lg_path self = [] \<and>
     (card_file_size self = None \<or> card_file_size self = Some 0) \<and>
     (card_mime_type self = None \<or> card_mime_type self = Some [])"
  by (auto simp: disallowed_fields_def getattr_true_def split: option.splits)

text \<open>
  C6, as stated, does not hold: the source tests each disallowed attribute for truth, not
  for being set. The sample stack has its file size set, to 0, and passes; a stack whose
  only attribute is a MIME type set to the empty string passes too.
\<close>

theorem stack_with_zero_file_size_passes:
  "card_type sample_stack = ''stack'' \<and>
   card_file_size sample_stack = Some 0 \<and>
   card_clean sample_stack = Inr () \<and>
   card_clean (sample_stack\<lparr>card_file_size := None, card_mime_type := Some []\<rparr>) = Inr ()"
  by (simp add: card_clean_def disallowed_fields_def getattr_true_def sample_stack_def)

text \<open>
  C6, amended. \<open>card_clean\<close> raises a validation error exactly when the card is not a
  stack and its content is empty, or it is a stack and one of origin_url, content and the
  three thumbnail paths is not empty, or its file_size is neither null nor 0, or its
  mime_type is neither null nor empty; otherwise it passes.
\<close>

theorem card_clean_fails_iff:
  "((\<exists>ms. card_clean c = Inl (ValidationError ms)) \<longleftrightarrow>
      (card_type c \<noteq> ''stack'' \<and> card_content c = []) \<or>
      (card_type c = ''stack'' \<and>
         (card_origin_url c \<noteq> [] \<or> card_content c \<noteq> [] \<or>
          card_thumbnail_sm_path c \<noteq> [] \<or> card_thumbnail_md_path c \<noteq> [] \<or>
          card_thumbnail_lg_path c \<noteq> [] \<or>
          (card_file_size c \<noteq> None \<and> card_file_size c \<noteq> Some 0) \<or>
          (card_mime_type c \<noteq> None \<and> card_mime_type c \<noteq> Some [])))) \<and>
   (card_clean c = Inr () \<longleftrightarrow> \<not> (\<exists>ms. card_clean c = Inl (ValidationError ms)))"
proof (cases "card_type c = ''stack''")
  case False
  then show ?thesis by (simp add: card_clean_def)
next
  case True
  show ?thesis
  proof (cases "find (getattr_true c) disallowed_fields")
    case None
    with True find_disallowed_None [of c] show ?thesis
      by (auto simp: card_clean_def)
  next
    case (Some f)
    then have "find (getattr_true c) disallowed_fields \<noteq> None" by simp
    with True Some find_disallowed_None [of c] show ?thesis
      by (auto simp: card_clean_def)
  qed
qed

text \<open>
  The sample file card passes and fails once its content is emptied; a stack with no
  attribute passes, and fails with a file size of -1 or with content.
\<close>

theorem card_clean_fails_iff_witness:
  "card_clean sample_file = Inr () \<and>
   (\<exists>ms. card_clean (sample_file\<lparr>card_content := []\<rparr>) = Inl (ValidationError ms)) \<and>
   card_clean (sample_stack\<lparr>card_file_size := None\<rparr>) = Inr () \<and>
   (\<exists>ms. card_clean (sample_stack\<lparr>card_file_size := Some (- 1)\<rparr>) =
           Inl (ValidationError ms)) \<and>
   (\<exists>ms. card_clean (sample_stack\<lparr>card_file_size := None, card_content := ''text''\<rparr>) =
           Inl (ValidationError ms))"
proof -
  have "\<not> (\<exists>ms. card_clean sample_file = Inl (ValidationError ms))"
    using card_clean_fails_iff [of sample_file] by (simp add: sample_file_def)
  with card_clean_fails_iff [of sample_file]
  have 1: "card_clean sample_file = Inr ()" by blast
  have 2: "\<exists>ms. card_clean (sample_file\<lparr>card_content := []\<rparr>) = Inl (ValidationError ms)"
    using card_clean_fails_iff [of "sample_file\<lparr>card_content := []\<rparr>"]
    by (simp add: sample_file_def)
  have "\<not> (\<exists>ms. card_clean (sample_stack\<lparr>card_file_size := None\<rparr>) =
                 Inl (ValidationError ms))"
    using card_clean_fails_iff [of "sample_stack\<lparr>card_file_size := None\<rparr>"]
    by (simp add: sample_stack_def)
  with card_clean_fails_iff [of "sample_stack\<lparr>card_file_size := None\<rparr>"]
  have 3: "card_clean (sample_stack\<lparr>card_file_size := None\<rparr>) = Inr ()" by blast
  have 4: "\<exists>ms. card_clean (sample_stack\<lparr>card_file_size := Some (- 1)\<rparr>) =
                Inl (ValidationError ms)"
    using card_clean_fails_iff [of "sample_stack\<lparr>card_file_size := Some (- 1)\<rparr>"]
    by (simp add: sample_stack_def)
  have 5: "\<exists>ms. card_clean (sample_stack\<lparr>card_file_size := None, card_content := ''text''\<rparr>) =
                Inl (ValidationError ms)"
    using card_clean_fails_iff
      [of "sample_stack\<lparr>card_file_size := None, card_content := ''text''\<rparr>"]
    by (simp add: sample_stack_def)
  show ?thesis by (rule conjI [OF 1 conjI [OF 2 conjI [OF 3 conjI [OF 4 5]]]])
qed

subsection \<open>Accepting and rejecting a request\<close>

text \<open>
  C3. When \<open>accept\<close> returns, the store has exactly one more invited user, built from the
  request, and exactly one more board collaborator, with read permission, for the
  request's board and linked to that invited user and to no user; the pair is in the
  invited user's collaborator set, one invite went out for the invited user, and the
  request's row is gone. When \<open>reject\<close> returns, the request's row is gone and the
  invited users and the board collaborators are as before. Both return for a stored request
  when no step is refused, the new collaborator's fields validate and the collaborator
  table refers to rows that exist.
\<close>

theorem accept_reject_effects:
  "(accept e s self = (Inr (), s') \<longrightarrow>
      (\<exists>i k. invited_users s' = invited_users s @ [(invited_user_data self)\<lparr>iu_id := Some i\<rparr>] \<and>
         board_collaborators s' = board_collaborators s @
           [\<lparr>bc_id = Some k, bc_board = board_id (req_board self), bc_user = None,
             bc_invited_user = Some i, bc_permission = ''read''\<rparr>] \<and>
         (i, k) \<in> set (invited_user_board_collaborators s') \<and>
         sent_invites s' = sent_invites s @ [i]) \<and>
      req_id self \<noteq> None \<and>
      collaborator_requests s' =
        filter (\<lambda>r. req_id r \<noteq> req_id self) (collaborator_requests s) \<and>
      self \<notin> set (collaborator_requests s')) \<and>
   (reject e s self = (Inr (), s') \<longrightarrow>
      invited_users s' = invited_users s \<and>
      board_collaborators s' = board_collaborators s \<and>
      req_id self \<noteq> None \<and>
      collaborator_requests s' =
        filter (\<lambda>r. req_id r \<noteq> req_id self) (collaborator_requests s) \<and>
      self \<notin> set (collaborator_requests s')) \<and>
   (req_id self \<noteq> None \<and>
    faults e \<inter> {InsertInvitedUser, InsertBoardCollaborator, AddBoardCollaborator,
                  SendInvite, DeleteCollaboratorRequest} = {} \<and>
    (\<forall>t c. collaborator_field_errors e t c = []) \<and> collaborators_refer_to_rows s \<longrightarrow>
      (\<exists>s1. accept e s self = (Inr (), s1))) \<and>
   (req_id self \<noteq> None \<and> DeleteCollaboratorRequest \<notin> faults e \<longrightarrow>
      (\<exists>s1. reject e s self = (Inr (), s1)))"
proof (intro conjI impI)
  assume a: "accept e s self = (Inr (), s')"
  from accept_Inr [OF a] obtain j where j: "req_id self = Some j"
    and s': "s' = s\<lparr>invited_users := invited_users s @
               [(invited_user_data self)\<lparr>iu_id := Some (next_pk (map iu_id (invited_users s)))\<rparr>],
            board_collaborators := board_collaborators s @
               [\<lparr>bc_id = Some (next_pk (map bc_id (board_collaborators s))),
                 bc_board = board_id (req_board self), bc_user = None,
                 bc_invited_user = Some (next_pk (map iu_id (invited_users s))),
                 bc_permission = READ_PERMISSION\<rparr>],
            invited_user_board_collaborators :=
               (if (next_pk (map iu_id (invited_users s)),
                    next_pk (map bc_id (board_collaborators s)))
                     \<in> set (invited_user_board_collaborators s)
                then invited_user_board_collaborators s
                else invited_user_board_collaborators s @
                       [(next_pk (map iu_id (invited_users s)),
                         next_pk (map bc_id (board_collaborators s)))]),
            sent_invites := sent_invites s @ [next_pk (map iu_id (invited_users s))],
            collaborator_requests :=
               filter (\<lambda>r. req_id r \<noteq> Some j) (collaborator_requests s)\<rparr>"
    by blast
  show "\<exists>i k. invited_users s' = invited_users s @ [(invited_user_data self)\<lparr>iu_id := Some i\<rparr>] \<and>
         board_collaborators s' = board_collaborators s @
           [\<lparr>bc_id = Some k, bc_board = board_id (req_board self), bc_user = None,
             bc_invited_user = Some i, bc_permission = ''read''\<rparr>] \<and>
         (i, k) \<in> set (invited_user_board_collaborators s') \<and>
         sent_invites s' = sent_invites s @ [i]"
    by (rule exI [of _ "next_pk (map iu_id (invited_users s))"],
        rule exI [of _ "next_pk (map bc_id (board_collaborators s))"])
      (simp add: s' READ_PERMISSION_def)
  from j show "req_id self \<noteq> None" by simp
  from j show "collaborator_requests s' =
        filter (\<lambda>r. req_id r \<noteq> req_id self) (collaborator_requests s)"
    by (simp add: s')
  from j show "self \<notin> set (collaborator_requests s')" by (simp add: s')
next
  assume r: "reject e s self = (Inr (), s')"
  then obtain j where j: "req_id self = Some j"
    and s': "s' = s\<lparr>collaborator_requests :=
                 filter (\<lambda>r. req_id r \<noteq> Some j) (collaborator_requests s)\<rparr>"
    by (auto simp: reject_def request_delete_Inr)
  show "invited_users s' = invited_users s" by (simp add: s')
  show "board_collaborators s' = board_collaborators s" by (simp add: s')
  from j show "req_id self \<noteq> None" by simp
  from j show "collaborator_requests s' =
        filter (\<lambda>r. req_id r \<noteq> req_id self) (collaborator_requests s)"
    by (simp add: s')
  from j show "self \<notin> set (collaborator_requests s')" by (simp add: s')
next
  assume "req_id self \<noteq> None \<and>
    faults e \<inter> {InsertInvitedUser, InsertBoardCollaborator, AddBoardCollaborator,
                  SendInvite, DeleteCollaboratorRequest} = {} \<and>
    (\<forall>t c. collaborator_field_errors e t c = []) \<and> collaborators_refer_to_rows s"
  then show "\<exists>s1. accept e s self = (Inr (), s1)"
    using accept_succeeds [of self e s] by blast
next
  assume "req_id self \<noteq> None \<and> DeleteCollaboratorRequest \<notin> faults e"
  then show "\<exists>s1. reject e s self = (Inr (), s1)"
    by (auto simp: reject_def request_delete_Inr)
qed

lemma sample_store_refers_to_rows: "collaborators_refer_to_rows sample_store"
  by (simp add: collaborators_refer_to_rows_def sample_store_def plans_def)

text \<open>
  In the sample store, accepting Bob's request returns and leaves one invited user with
  Bob's address, a second collaborator row with read permission, one invite and no request;
  rejecting it returns and leaves no invited user, the one collaborator row and no request.
\<close>

theorem accept_reject_effects_witness:
  "(\<exists>s'. accept no_faults sample_store bobs_request = (Inr (), s') \<and>
     map iu_email (invited_users s') = [''bob@example.com''] \<and>
     map bc_permission (board_collaborators s') = [''write'', ''read''] \<and>
     length (sent_invites s') = 1 \<and>
     collaborator_requests s' = []) \<and>
   (\<exists>s'. reject no_faults sample_store bobs_request = (Inr (), s') \<and>
     invited_users s' = [] \<and>
     map bc_permission (board_collaborators s') = [''write''] \<and>
     collaborator_requests s' = [])"
proof -
  have pre: "req_id bobs_request \<noteq> None \<and>
    faults no_faults \<inter> {InsertInvitedUser, InsertBoardCollaborator, AddBoardCollaborator,
                  SendInvite, DeleteCollaboratorRequest} = {} \<and>
    (\<forall>t c. collaborator_field_errors no_faults t c = []) \<and>
    collaborators_refer_to_rows sample_store"
    by (simp add: sample_store_refers_to_rows bobs_request_def no_faults_def)
  with accept_reject_effects [of no_faults sample_store bobs_request]
  obtain s' where a: "accept no_faults sample_store bobs_request = (Inr (), s')"
    by blast
  with accept_reject_effects [of no_faults sample_store bobs_request s']
  obtain i k where
    "invited_users s' = invited_users sample_store @
        [(invited_user_data bobs_request)\<lparr>iu_id := Some i\<rparr>]"
    "board_collaborators s' = board_collaborators sample_store @
           [\<lparr>bc_id = Some k, bc_board = board_id (req_board bobs_request), bc_user = None,
             bc_invited_user = Some i, bc_permission = ''read''\<rparr>]"
    "sent_invites s' = sent_invites sample_store @ [i]"
    "collaborator_requests s' =
        filter (\<lambda>r. req_id r \<noteq> req_id bobs_request) (collaborator_requests sample_store)"
    by blast
  then have "map iu_email (invited_users s') = [''bob@example.com''] \<and>
     map bc_permission (board_collaborators s') = [''write'', ''read''] \<and>
     length (sent_invites s') = 1 \<and>
     collaborator_requests s' = []"
    by (simp add: sample_store_def invited_user_data_def bobs_request_def)
  with a have acc: "\<exists>s'. accept no_faults sample_store bobs_request = (Inr (), s') \<and>
     map iu_email (invited_users s') = [''bob@example.com''] \<and>
     map bc_permission (board_collaborators s') = [''write'', ''read''] \<and>
     length (sent_invites s') = 1 \<and>
     collaborator_requests s' = []"
    by (intro exI [of _ s']) simp
  from pre accept_reject_effects [of no_faults sample_store bobs_request]
  obtain s2 where r: "reject no_faults sample_store bobs_request = (Inr (), s2)"
    by blast
  with accept_reject_effects [of no_faults sample_store bobs_request s2]
  have "invited_users s2 = invited_users sample_store \<and>
      board_collaborators s2 = board_collaborators sample_store \<and>
      collaborator_requests s2 =
        filter (\<lambda>r. req_id r \<noteq> req_id bobs_request) (collaborator_requests sample_store)"
    by blast
  then have "invited_users s2 = [] \<and>
     map bc_permission (board_collaborators s2) = [''write''] \<and>
     collaborator_requests s2 = []"
    by (simp add: sample_store_def bobs_request_def)
  with r have rej: "\<exists>s'. reject no_faults sample_store bobs_request = (Inr (), s') \<and>
     invited_users s' = [] \<and>
     map bc_permission (board_collaborators s') = [''write''] \<and>
     collaborator_requests s' = []"
    by (intro exI [of _ s2]) simp
  from acc rej show ?thesis by (rule conjI)
qed

subsection \<open>A step of accept that fails\<close>





subsection \<open>A registered requester after accept\<close>

text \<open>
  C10. When \<open>accept\<close> returns for a request bound to a registered user, the one
  collaborator row it wrote is linked to the new invited user and to no user, so
  \<open>is_user_collaborator\<close> answers for that user and the request's board as it did before:
  if the user was no collaborator, the user is none after the request was accepted.
\<close>

theorem accept_leaves_bound_user_out:
  "accept e s self = (Inr (), s') \<and> req_user self = Some u \<longrightarrow>
     (\<exists>c i. board_collaborators s' = board_collaborators s @ [c] \<and>
        bc_user c = None \<and> bc_invited_user c = Some i \<and>
        Some i \<notin> iu_id ` set (invited_users s) \<and>
        Some i \<in> iu_id ` set (invited_users s')) \<and>
     (\<forall>p. is_user_collaborator s' (req_board self) u p =
           is_user_collaborator s (req_board self) u p) \<and>
     (\<not> is_user_collaborator s (req_board self) u None \<longrightarrow>
      \<not> is_user_collaborator s' (req_board self) u None)"
proof
  assume "accept e s self = (Inr (), s') \<and> req_user self = Some u"
  then have a: "accept e s self = (Inr (), s')" by simp
  let ?i = "next_pk (map iu_id (invited_users s))"
  let ?c = "\<lparr>bc_id = Some (next_pk (map bc_id (board_collaborators s))),
             bc_board = board_id (req_board self), bc_user = None,
             bc_invited_user = Some ?i, bc_permission = READ_PERMISSION\<rparr>"
  from accept_Inr [OF a] have bc: "board_collaborators s' = board_collaborators s @ [?c]"
    and iu: "invited_users s' = invited_users s @ [(invited_user_data self)\<lparr>iu_id := Some ?i\<rparr>]"
    by auto
  have 1: "\<exists>c i. board_collaborators s' = board_collaborators s @ [c] \<and>
        bc_user c = None \<and> bc_invited_user c = Some i \<and>
        Some i \<notin> iu_id ` set (invited_users s) \<and>
        Some i \<in> iu_id ` set (invited_users s')"
    by (rule exI [of _ ?c], rule exI [of _ ?i])
      (simp add: bc iu next_pk_fresh)
  have 2: "is_user_collaborator s' (req_board self) u p =
           is_user_collaborator s (req_board self) u p" for p
    by (simp add: is_user_collaborator_def bc)
  from 1 2 show "(\<exists>c i. board_collaborators s' = board_collaborators s @ [c] \<and>
        bc_user c = None \<and> bc_invited_user c = Some i \<and>
        Some i \<notin> iu_id ` set (invited_users s) \<and>
        Some i \<in> iu_id ` set (invited_users s')) \<and>
     (\<forall>p. is_user_collaborator s' (req_board self) u p =
           is_user_collaborator s (req_board self) u p) \<and>
     (\<not> is_user_collaborator s (req_board self) u None \<longrightarrow>
      \<not> is_user_collaborator s' (req_board self) u None)"
    by simp
qed

lemma accept_sample:
  "\<exists>s'. accept no_faults sample_store bobs_request = (Inr (), s')"
  using accept_succeeds [of bobs_request no_faults sample_store] sample_store_refers_to_rows
  by (simp add: bobs_request_def no_faults_def)

text \<open>
  Bob is a registered user and no collaborator of Plans; his request is accepted, and he
  is still no collaborator of Plans.
\<close>

theorem accept_leaves_bound_user_out_witness:
  "\<exists>s'. accept no_faults sample_store bobs_request = (Inr (), s') \<and>
     req_user bobs_request = Some bob \<and>
     \<not> is_user_collaborator sample_store plans bob None \<and>
     \<not> is_user_collaborator s' plans bob None"
proof -
  from accept_sample obtain s'
    where a: "accept no_faults sample_store bobs_request = (Inr (), s')" by blast
  have u: "req_user bobs_request = Some bob" by (simp add: bobs_request_def)
  have b: "req_board bobs_request = plans" by (simp add: bobs_request_def)
  have n: "\<not> is_user_collaborator sample_store plans bob None"
    by (simp add: is_user_collaborator_def sample_store_def plans_def bob_def)
  from accept_leaves_bound_user_out [of no_faults sample_store bobs_request s' bob] a u b n
  have "\<not> is_user_collaborator s' plans bob None" by simp
  with a u n show ?thesis by (intro exI [of _ s']) simp
qed

subsection \<open>Notifying the account owner\<close>

text \<open>
  C1. \<open>notify_account_owner\<close> hands the mail sender one message with the fixed subject,
  body and sender, and with \<^verbatim>\<open>fail_silently=False\<close>, so a failed delivery raises. But
  the recipient list is the request's own address: in the sample store the mail about
  Bob's request goes to Bob, and Ann, who owns the board's account, gets none.
\<close>

theorem notify_account_owner_recipient:
  "notify_account_owner no_faults sample_store bobs_request =
     (Inr 1,
      sample_store\<lparr>outbox :=
        [\<lparr>mail_subject = ''Blimp Board Collaborator Request'',
          mail_body = ''bob@example.com wants to join your board'',
          mail_from = ''from@example.com'',
          mail_to = [''bob@example.com'']\<rparr>]\<rparr>) \<and>
   user_email (account_owner_user (board_account (req_board bobs_request))) =
     ''ann@example.com'' \<and>
   fst (notify_account_owner (no_faults\<lparr>faults := {SendMail}\<rparr>) sample_store bobs_request) =
     Inl DeliveryError"
  by (simp add: notify_account_owner_def send_mail_def no_faults_def sample_store_def
      bobs_request_def plans_def ann_def)

lemma notify_account_owner_sends:
  "notify_account_owner e s self =
     (if SendMail \<in> faults e then (Inl DeliveryError, s)
      else (Inr 1, s\<lparr>outbox := outbox s @
              [\<lparr>mail_subject = ''Blimp Board Collaborator Request'',
                mail_body = req_email self @ '' wants to join your board'',
                mail_from = ''from@example.com'',
                mail_to = [req_email self]\<rparr>]\<rparr>))"
  by (simp add: notify_account_owner_def send_mail_def)

subsection \<open>Preview requests\<close>

text \<open>
  C9. \<open>post_save\<close> of a created card of type file queues exactly one preview request, for
  the card's content, with the sizes 200x200, 500x500 and 800x800 and the card's id as
  \<^verbatim>\<open>cardId\<close>; of a created note or stack it queues none; of a card that was not created
  it queues none. So saving a new file card queues that one request under the key the card
  was given, and saving a card that is already stored queues nothing.
\<close>

theorem post_save_previews:
  "(card_type c = ''file'' \<longrightarrow>
      post_save s c True =
        s\<lparr>preview_queue := preview_queue s @
            [\<lparr>pr_url = card_content c,
              pr_sizes = [''200x200'', ''500x500'', ''800x800''],
              pr_metadata = [(''cardId'', card_id c)]\<rparr>]\<rparr>) \<and>
   (card_type c = ''note'' \<or> card_type c = ''stack'' \<longrightarrow> post_save s c True = s) \<and>
   post_save s c False = s \<and>
   (card_save e s c = (Inr obj, s') \<and> card_type c = ''file'' \<and> card_id c = None \<longrightarrow>
      card_id obj = Some (next_pk (map card_id (cards s))) \<and>
      preview_queue s' = preview_queue s @
        [\<lparr>pr_url = card_content c,
          pr_sizes = [''200x200'', ''500x500'', ''800x800''],
          pr_metadata = [(''cardId'', card_id obj)]\<rparr>]) \<and>
   (card_save e s c = (Inr obj, s') \<and> card_id c = None \<and>
      (card_type c = ''note'' \<or> card_type c = ''stack'') \<longrightarrow>
      preview_queue s' = preview_queue s) \<and>
   (card_save e s c = (Inr obj, s') \<and> card_id c \<noteq> None \<and>
      card_id c \<in> card_id ` set (cards s) \<longrightarrow>
      preview_queue s' = preview_queue s)"
  by (auto simp: post_save_def queue_previews_def card_save_def Let_def
      split: sum.splits if_splits)

text \<open>
  Saving the sample file card into the sample store stores it as card 1 and queues one
  preview request for it; saving the stored card again queues no second one; and the hook
  of a created note or stack leaves the store as it is.
\<close>

theorem post_save_previews_witness:
  "(\<exists>obj s' obj' s''.
     card_save no_faults sample_store sample_file = (Inr obj, s') \<and>
     card_id obj = Some 1 \<and>
     map pr_metadata (preview_queue s') = [[(''cardId'', Some 1)]] \<and>
     card_save no_faults s' obj = (Inr obj', s'') \<and>
     preview_queue s'' = preview_queue s') \<and>
   post_save sample_store (sample_file\<lparr>card_type := ''note''\<rparr>) True = sample_store \<and>
   post_save sample_store sample_stack True = sample_store"
proof -
  have n: "card_type (sample_file\<lparr>card_type := ''note''\<rparr>) = ''note'' \<or>
           card_type (sample_file\<lparr>card_type := ''note''\<rparr>) = ''stack''"
    "card_type sample_stack = ''note'' \<or> card_type sample_stack = ''stack''"
    by (simp_all add: sample_stack_def)
  from post_save_previews [where c = "sample_file\<lparr>card_type := ''note''\<rparr>" and s = sample_store]
    n(1)
  have created_note: "post_save sample_store (sample_file\<lparr>card_type := ''note''\<rparr>) True = sample_store"
    by blast
  from post_save_previews [where c = sample_stack and s = sample_store] n(2)
  have created_stack: "post_save sample_store sample_stack True = sample_store"
    by blast
  let ?obj = "sample_file\<lparr>card_id := Some 1\<rparr>"
  let ?q = "[\<lparr>pr_url = ''https://example.com/photo.png'',
             pr_sizes = [''200x200'', ''500x500'', ''800x800''],
             pr_metadata = [(''cardId'', Some 1)]\<rparr>]"
  let ?s' = "sample_store\<lparr>cards := [?obj], preview_queue := ?q\<rparr>"
  have clean: "pre_save no_faults sample_store sample_file = Inr ()"
    by (simp add: pre_save_def full_clean_def card_clean_def no_faults_def sample_file_def)
  have clean': "pre_save no_faults ?s' ?obj = Inr ()"
    by (simp add: pre_save_def full_clean_def card_clean_def no_faults_def sample_file_def)
  have 1: "card_save no_faults sample_store sample_file = (Inr ?obj, ?s')"
    using clean
    by (simp add: card_save_def post_save_def queue_previews_def Let_def next_pk_def
        no_faults_def sample_store_def sample_file_def)
  have 2: "card_save no_faults ?s' ?obj = (Inr ?obj, ?s')"
    using clean'
    by (simp add: card_save_def post_save_def queue_previews_def Let_def
        no_faults_def sample_store_def sample_file_def)
  have t: "card_type sample_file = ''file''" "card_id sample_file = None"
    "card_id ?obj \<noteq> None" "card_id ?obj \<in> card_id ` set (cards ?s')"
    by (simp_all add: sample_file_def)
  from post_save_previews [of sample_file sample_store no_faults ?obj ?s'] 1 t
  have q: "map pr_metadata (preview_queue ?s') = [[(''cardId'', Some 1)]]"
    by simp
  from post_save_previews [of ?obj ?s' no_faults ?obj ?s'] 2 t
  have "preview_queue ?s' = preview_queue ?s'" by simp
  with 1 2 q have "\<exists>obj s' obj' s''.
     card_save no_faults sample_store sample_file = (Inr obj, s') \<and>
     card_id obj = Some 1 \<and>
     map pr_metadata (preview_queue s') = [[(''cardId'', Some 1)]] \<and>
     card_save no_faults s' obj = (Inr obj', s'') \<and>
     preview_queue s'' = preview_queue s'"
    by (intro exI [of _ ?obj] exI [of _ ?s']) simp
  with created_note created_stack show ?thesis by (intro conjI)
qed

subsection \<open>The owner's collaborator row\<close>

lemma create_owner_collaborator_Inr:
  "create_owner_collaborator e s b created = (Inr (), s') \<longleftrightarrow>
     (if created then
        (\<exists>c. board_collaborator_create e s (board_id b)
                (Some (user_id (account_owner_user (board_account b)))) None WRITE_PERMISSION
              = (Inr c, s'))
      else s' = s)"
  by (auto simp: create_owner_collaborator_def try_bind_Inr Let_def)

lemma new_board_collaborator_unique:
  assumes "collaborators_refer_to_rows s"
  shows "board_collaborator_validate_unique
           (s\<lparr>boards := boards s @ [b]\<rparr>)
           \<lparr>bc_id = None, bc_board = Some (next_pk (map board_id (boards s))),
            bc_user = u, bc_invited_user = None, bc_permission = p\<rparr> exclude = []"
proof -
  have "\<forall>c \<in> set (board_collaborators s).
          bc_board c \<noteq> Some (next_pk (map board_id (boards s)))"
    using assms next_pk_fresh [of board_id "boards s"]
    unfolding collaborators_refer_to_rows_def list_all_iff by (metis option.distinct(1))
  then show ?thesis
    by (auto simp: board_collaborator_validate_unique_def filter_empty_conv)
qed

text \<open>
  C5. When saving a board creates it (the instance has no key, or no row has its key), the
  save writes exactly one collaborator row more: for the board as stored, the user of its
  account's owner, no invited user, write permission. When the save updates a stored board,
  the collaborator table is as before. A board without a key is created whenever no write
  is refused, the new row's fields validate and the collaborator table refers to rows that
  exist; a stored board is updated whenever the write is not refused.
\<close>

theorem board_save_owner_collaborator:
  "(board_save e s self = (Inr b, s') \<and>
    (board_id self = None \<or> board_id self \<notin> board_id ` set (boards s)) \<longrightarrow>
      b \<in> set (boards s') \<and> board_id b \<noteq> None \<and>
      (\<exists>k. board_collaborators s' = board_collaborators s @
         [\<lparr>bc_id = Some k, bc_board = board_id b,
           bc_user = Some (user_id (account_owner_user (board_account b))),
           bc_invited_user = None, bc_permission = ''write''\<rparr>])) \<and>
   (board_save e s self = (Inr b, s') \<and>
    board_id self \<noteq> None \<and> board_id self \<in> board_id ` set (boards s) \<longrightarrow>
      board_collaborators s' = board_collaborators s) \<and>
   (board_id self = None \<and>
    faults e \<inter> {WriteBoard, InsertBoardCollaborator} = {} \<and>
    (\<forall>t c. collaborator_field_errors e t c = []) \<and> collaborators_refer_to_rows s \<longrightarrow>
      (\<exists>b1 s1. board_save e s self = (Inr b1, s1))) \<and>
   (board_id self \<noteq> None \<and> board_id self \<in> board_id ` set (boards s) \<and>
    WriteBoard \<notin> faults e \<longrightarrow>
      (\<exists>b1 s1. board_save e s self = (Inr b1, s1)))"
proof -
  have p1: "board_save e s self = (Inr b, s') \<and>
    (board_id self = None \<or> board_id self \<notin> board_id ` set (boards s)) \<longrightarrow>
      b \<in> set (boards s') \<and> board_id b \<noteq> None \<and>
      (\<exists>k. board_collaborators s' = board_collaborators s @
         [\<lparr>bc_id = Some k, bc_board = board_id b,
           bc_user = Some (user_id (account_owner_user (board_account b))),
           bc_invited_user = None, bc_permission = ''write''\<rparr>])"
    by (auto simp: board_save_def Let_def try_bind_Inr create_owner_collaborator_Inr
        board_collaborator_create_Inr WRITE_PERMISSION_def split: if_splits)
  have p2: "board_save e s self = (Inr b, s') \<and>
    board_id self \<noteq> None \<and> board_id self \<in> board_id ` set (boards s) \<longrightarrow>
      board_collaborators s' = board_collaborators s"
    by (auto simp: board_save_def Let_def try_bind_Inr create_owner_collaborator_Inr
        split: if_splits)
  have p3: "board_id self = None \<and>
    faults e \<inter> {WriteBoard, InsertBoardCollaborator} = {} \<and>
    (\<forall>t c. collaborator_field_errors e t c = []) \<and> collaborators_refer_to_rows s \<longrightarrow>
      (\<exists>b1 s1. board_save e s self = (Inr b1, s1))"
  proof
    assume a: "board_id self = None \<and>
      faults e \<inter> {WriteBoard, InsertBoardCollaborator} = {} \<and>
      (\<forall>t c. collaborator_field_errors e t c = []) \<and> collaborators_refer_to_rows s"
    then have "collaborators_refer_to_rows s" by simp
    from new_board_collaborator_unique [OF this] a
    show "\<exists>b1 s1. board_save e s self = (Inr b1, s1)"
      by (simp add: board_save_def Let_def try_bind_Inr create_owner_collaborator_Inr
          board_collaborator_create_Inr full_clean_def board_collaborator_clean_def)
  qed
  have p4: "board_id self \<noteq> None \<and> board_id self \<in> board_id ` set (boards s) \<and>
    WriteBoard \<notin> faults e \<longrightarrow>
      (\<exists>b1 s1. board_save e s self = (Inr b1, s1))"
    by (auto simp: board_save_def Let_def try_bind_Inr create_owner_collaborator_Inr)
  show ?thesis by (rule conjI [OF p1 conjI [OF p2 conjI [OF p3 p4]]])
qed

text \<open>
  A second board of Ann's account, saved into the sample store, becomes board 2 with Ann as
  its write collaborator; saving board 2 again leaves the two collaborator rows.
\<close>

theorem board_save_owner_collaborator_witness:
  "\<exists>b s' b' s''.
     board_save no_faults sample_store (plans\<lparr>board_id := None\<rparr>) = (Inr b, s') \<and>
     map (\<lambda>c. (bc_board c, bc_user c, bc_permission c)) (board_collaborators s') =
       [(Some 1, Some 1, ''write''), (board_id b, Some 1, ''write'')] \<and>
     board_save no_faults s' b = (Inr b', s'') \<and>
     board_collaborators s'' = board_collaborators s'"
proof -
  let ?new = "plans\<lparr>board_id := None\<rparr>"
  have pre: "board_id ?new = None \<and>
    faults no_faults \<inter> {WriteBoard, InsertBoardCollaborator} = {} \<and>
    (\<forall>t c. collaborator_field_errors no_faults t c = []) \<and>
    collaborators_refer_to_rows sample_store"
    by (simp add: sample_store_refers_to_rows no_faults_def)
  with board_save_owner_collaborator [of no_faults sample_store ?new]
  obtain b s' where 1: "board_save no_faults sample_store ?new = (Inr b, s')" by blast
  with board_save_owner_collaborator [of no_faults sample_store ?new b s']
  obtain k where b: "b \<in> set (boards s')" "board_id b \<noteq> None"
    and c: "board_collaborators s' = board_collaborators sample_store @
         [\<lparr>bc_id = Some k, bc_board = board_id b,
           bc_user = Some (user_id (account_owner_user (board_account b))),
           bc_invited_user = None, bc_permission = ''write''\<rparr>]"
    by auto
  from 1 have acc: "board_account b = board_account plans"
    by (auto simp: board_save_def Let_def try_bind_Inr split: if_splits)
  from b have pre2: "board_id b \<noteq> None \<and> board_id b \<in> board_id ` set (boards s') \<and>
    WriteBoard \<notin> faults no_faults"
    by (simp add: no_faults_def)
  with board_save_owner_collaborator [of no_faults s' b]
  obtain b' s'' where 2: "board_save no_faults s' b = (Inr b', s'')" by blast
  with board_save_owner_collaborator [of no_faults s' b b' s''] pre2
  have same: "board_collaborators s'' = board_collaborators s'" by blast
  from c acc have "map (\<lambda>c. (bc_board c, bc_user c, bc_permission c)) (board_collaborators s') =
       [(Some 1, Some 1, ''write''), (board_id b, Some 1, ''write'')]"
    by (simp add: sample_store_def plans_def ann_def)
  with 1 2 same show ?thesis
    by (intro exI [of _ b] exI [of _ s'] exI [of _ b'] exI [of _ s'']) simp
qed

subsection \<open>Saving a request\<close>

text \<open>
  C8, as the claim states it, does not hold: \<open>request_save\<close> looks the address up before
  it validates, the empty address too. With a user stored without an address, the request
  that names neither user nor address is bound to that user and written.
\<close>

theorem request_save_blank_binds:
  "req_user blank_request = None \<and> req_email blank_request = [] \<and>
   fst (request_save no_faults (sample_store\<lparr>users := [ann, bob, guest]\<rparr>) blank_request) =
     Inr (blank_request\<lparr>req_id := Some 2, req_user := Some guest,
                        req_first_name := ''Guest''\<rparr>)"
  by (simp add: request_save_def request_bind_user_def user_objects_get_def full_clean_def
      request_clean_def request_validate_unique_def no_faults_def sample_store_def
      blank_request_def guest_def ann_def bob_def bobs_request_def plans_def next_pk_def
      Let_def)

lemma request_bind_user_found:
  assumes "req_user self = None" and "user_objects_get s (req_email self) = Inr u"
  shows "request_bind_user s self =
           Inr (self\<lparr>req_user := Some u, req_first_name := user_first_name u,
                     req_last_name := user_last_name u, req_email := user_email u\<rparr>)"
  using assms by (simp add: request_bind_user_def)

lemma request_bind_user_blank:
  assumes "req_user self = None" and "req_email self = []"
    and "\<forall>u \<in> set (users s). user_email u \<noteq> []"
  shows "request_bind_user s self = Inr self"
proof -
  from assms(3) have "filter (\<lambda>u. user_email u = []) (users s) = []"
    by (simp add: filter_empty_conv)
  with assms(1,2) show ?thesis
    by (simp add: request_bind_user_def user_objects_get_def)
qed

lemma full_clean_invalid:
  "full_clean fe (Inl (ValidationError ms)) vu =
     Inl (ValidationError (map snd fe @ ms @ vu (map fst fe)))"
  by (simp add: full_clean_def)

lemma request_save_Inr:
  assumes "request_save e s self = (Inr obj, s')" and "request_bind_user s self = Inr self'"
  shows "obj \<in> set (collaborator_requests s') \<and>
         (obj = self' \<or> obj = self'\<lparr>req_id := Some (next_pk (map req_id (collaborator_requests s)))\<rparr>)"
  using assms
  by (auto simp: request_save_def Let_def split: sum.splits if_splits)

text \<open>
  C8, amended. \<open>request_clean\<close> raises a validation error whenever user and address are
  both empty, and \<open>request_save\<close> fails with a validation error when they are both empty
  and no stored user has an empty address. When a request without a user is saved and the
  lookup by its address finds the user \<open>u\<close>, the instance is bound to \<open>u\<close> and takes names
  and address from \<open>u\<close> before it is validated, a request that is written is written so,
  and it is written when its fields validate, the uniqueness checks find no other request,
  and the write is not refused.
\<close>

theorem request_save_validates_and_binds:
  "(req_user self = None \<and> req_email self = [] \<longrightarrow>
      request_clean self = Inl (ValidationError [''Either user or email must be set.''])) \<and>
   (req_user self = None \<and> req_email self = [] \<and>
    (\<forall>u \<in> set (users s). user_email u \<noteq> []) \<longrightarrow>
      (\<exists>ms. request_save e s self = (Inl (ValidationError ms), s))) \<and>
   (req_user self = None \<and> user_objects_get s (req_email self) = Inr u \<longrightarrow>
      request_bind_user s self =
        Inr (self\<lparr>req_user := Some u, req_first_name := user_first_name u,
                  req_last_name := user_last_name u, req_email := user_email u\<rparr>) \<and>
      (request_save e s self = (Inr obj, s') \<longrightarrow>
         obj \<in> set (collaborator_requests s') \<and> req_user obj = Some u \<and>
         req_first_name obj = user_first_name u \<and> req_last_name obj = user_last_name u \<and>
         req_email obj = user_email u) \<and>
      ((\<forall>t r. request_field_errors e t r = []) \<and>
       request_validate_unique s
         (self\<lparr>req_user := Some u, req_first_name := user_first_name u,
               req_last_name := user_last_name u, req_email := user_email u\<rparr>) [] = [] \<and>
       WriteCollaboratorRequest \<notin> faults e \<longrightarrow>
         (\<exists>obj1 s1. request_save e s self = (Inr obj1, s1))))"
proof -
  have p1: "req_user self = None \<and> req_email self = [] \<longrightarrow>
      request_clean self = Inl (ValidationError [''Either user or email must be set.''])"
    by (simp add: request_clean_def)
  have p2: "req_user self = None \<and> req_email self = [] \<and>
    (\<forall>u \<in> set (users s). user_email u \<noteq> []) \<longrightarrow>
      (\<exists>ms. request_save e s self = (Inl (ValidationError ms), s))"
  proof
    assume a: "req_user self = None \<and> req_email self = [] \<and>
      (\<forall>u \<in> set (users s). user_email u \<noteq> [])"
    then have "request_bind_user s self = Inr self"
      using request_bind_user_blank [of self s] by blast
    with a show "\<exists>ms. request_save e s self = (Inl (ValidationError ms), s)"
      by (simp add: request_save_def request_clean_def full_clean_invalid)
  qed
  have p3: "req_user self = None \<and> user_objects_get s (req_email self) = Inr u \<longrightarrow>
      request_bind_user s self =
        Inr (self\<lparr>req_user := Some u, req_first_name := user_first_name u,
                  req_last_name := user_last_name u, req_email := user_email u\<rparr>) \<and>
      (request_save e s self = (Inr obj, s') \<longrightarrow>
         obj \<in> set (collaborator_requests s') \<and> req_user obj = Some u \<and>
         req_first_name obj = user_first_name u \<and> req_last_name obj = user_last_name u \<and>
         req_email obj = user_email u) \<and>
      ((\<forall>t r. request_field_errors e t r = []) \<and>
       request_validate_unique s
         (self\<lparr>req_user := Some u, req_first_name := user_first_name u,
               req_last_name := user_last_name u, req_email := user_email u\<rparr>) [] = [] \<and>
       WriteCollaboratorRequest \<notin> faults e \<longrightarrow>
         (\<exists>obj1 s1. request_save e s self = (Inr obj1, s1)))"
  proof
    assume a: "req_user self = None \<and> user_objects_get s (req_email self) = Inr u"
    let ?b = "self\<lparr>req_user := Some u, req_first_name := user_first_name u,
                  req_last_name := user_last_name u, req_email := user_email u\<rparr>"
    from a have b: "request_bind_user s self = Inr ?b"
      using request_bind_user_found [of self s u] by blast
    have w: "request_save e s self = (Inr obj, s') \<longrightarrow>
         obj \<in> set (collaborator_requests s') \<and> req_user obj = Some u \<and>
         req_first_name obj = user_first_name u \<and> req_last_name obj = user_last_name u \<and>
         req_email obj = user_email u"
    proof
      assume "request_save e s self = (Inr obj, s')"
      from request_save_Inr [OF this b] show
        "obj \<in> set (collaborator_requests s') \<and> req_user obj = Some u \<and>
         req_first_name obj = user_first_name u \<and> req_last_name obj = user_last_name u \<and>
         req_email obj = user_email u"
        by auto
    qed
    have ok: "(\<forall>t r. request_field_errors e t r = []) \<and>
       request_validate_unique s
         (self\<lparr>req_user := Some u, req_first_name := user_first_name u,
               req_last_name := user_last_name u, req_email := user_email u\<rparr>) [] = [] \<and>
       WriteCollaboratorRequest \<notin> faults e \<longrightarrow>
         (\<exists>obj1 s1. request_save e s self = (Inr obj1, s1))"
    proof
      assume c: "(\<forall>t r. request_field_errors e t r = []) \<and>
       request_validate_unique s
         (self\<lparr>req_user := Some u, req_first_name := user_first_name u,
               req_last_name := user_last_name u, req_email := user_email u\<rparr>) [] = [] \<and>
       WriteCollaboratorRequest \<notin> faults e"
      then have "full_clean (request_field_errors e s ?b) (request_clean ?b)
                     (request_validate_unique s ?b) = Inr ()"
        by (simp add: full_clean_def request_clean_def)
      with b c show "\<exists>obj1 s1. request_save e s self = (Inr obj1, s1)"
        by (simp add: request_save_def Let_def)
    qed
    from b w ok show "request_bind_user s self = Inr ?b \<and>
      (request_save e s self = (Inr obj, s') \<longrightarrow>
         obj \<in> set (collaborator_requests s') \<and> req_user obj = Some u \<and>
         req_first_name obj = user_first_name u \<and> req_last_name obj = user_last_name u \<and>
         req_email obj = user_email u) \<and>
      ((\<forall>t r. request_field_errors e t r = []) \<and>
       request_validate_unique s
         (self\<lparr>req_user := Some u, req_first_name := user_first_name u,
               req_last_name := user_last_name u, req_email := user_email u\<rparr>) [] = [] \<and>
       WriteCollaboratorRequest \<notin> faults e \<longrightarrow>
         (\<exists>obj1 s1. request_save e s self = (Inr obj1, s1)))"
      by (intro conjI)
  qed
  show ?thesis by (rule conjI [OF p1 conjI [OF p2 p3]])
qed


text \<open>
  In the sample store, where every user has an address, the blank request fails validation;
  with no request stored yet, the request that gives Bob's address is bound to Bob and
  written under his names.
\<close>

theorem request_save_validates_and_binds_witness:
  "(\<exists>ms. request_save no_faults sample_store blank_request =
           (Inl (ValidationError ms), sample_store)) \<and>
   request_clean blank_request =
     Inl (ValidationError [''Either user or email must be set.'']) \<and>
   (\<exists>obj s'. request_save no_faults (sample_store\<lparr>collaborator_requests := []\<rparr>) address_request = (Inr obj, s') \<and>
      obj \<in> set (collaborator_requests s') \<and>
      req_user obj = Some bob \<and> req_first_name obj = ''Bob'' \<and>
      req_last_name obj = ''Ray'' \<and> req_email obj = ''bob@example.com'')"
proof -
  let ?s0 = "sample_store\<lparr>collaborator_requests := []\<rparr>"
  have blank: "req_user blank_request = None \<and> req_email blank_request = [] \<and>
    (\<forall>u \<in> set (users sample_store). user_email u \<noteq> [])"
    by (simp add: blank_request_def sample_store_def ann_def bob_def)
  from request_save_validates_and_binds [where self = blank_request and s = sample_store and e = no_faults] blank
  have 1: "\<exists>ms. request_save no_faults sample_store blank_request =
           (Inl (ValidationError ms), sample_store)"
    and 2: "request_clean blank_request =
     Inl (ValidationError [''Either user or email must be set.''])"
    by blast+
  let ?b = "address_request\<lparr>req_user := Some bob, req_first_name := user_first_name bob,
               req_last_name := user_last_name bob, req_email := user_email bob\<rparr>"
  have found: "req_user address_request = None \<and>
    user_objects_get ?s0 (req_email address_request) = Inr bob"
    by (simp add: address_request_def user_objects_get_def sample_store_def ann_def bob_def)
  have ok: "(\<forall>t r. request_field_errors no_faults t r = []) \<and>
    request_validate_unique ?s0 ?b [] = [] \<and>
    WriteCollaboratorRequest \<notin> faults no_faults"
    by (simp add: no_faults_def request_validate_unique_def sample_store_def
        address_request_def bobs_request_def bob_def plans_def)
  from request_save_validates_and_binds [where self = address_request and s = ?s0 and u = bob and e = no_faults]
    found ok
  obtain obj s' where s: "request_save no_faults ?s0 address_request = (Inr obj, s')"
    by blast
  from request_save_validates_and_binds
    [where self = address_request and s = ?s0 and u = bob and e = no_faults
       and obj = obj and s' = s'] found s
  have "obj \<in> set (collaborator_requests s') \<and> req_user obj = Some bob \<and>
    req_first_name obj = user_first_name bob \<and> req_last_name obj = user_last_name bob \<and>
    req_email obj = user_email bob"
    by blast
  then have "obj \<in> set (collaborator_requests s') \<and>
      req_user obj = Some bob \<and> req_first_name obj = ''Bob'' \<and>
      req_last_name obj = ''Ray'' \<and> req_email obj = ''bob@example.com''"
    by (simp add: bob_def)
  with s have 3: "\<exists>obj s'. request_save no_faults ?s0 address_request = (Inr obj, s') \<and>
      obj \<in> set (collaborator_requests s') \<and>
      req_user obj = Some bob \<and> req_first_name obj = ''Bob'' \<and>
      req_last_name obj = ''Ray'' \<and> req_email obj = ''bob@example.com''"
    by (intro exI [of _ obj] exI [of _ s']) simp
  show ?thesis by (rule conjI [OF 1 conjI [OF 2 3]])
qed

subsection \<open>Stack back-references\<close>

text \<open>
  C7, as the claim states it, does not hold. Card 3 is added to stack 1 and then to
  stack 2, so its \<open>stack\<close> is 2. Removed from stack 1, its \<open>stack\<close> is still 2 and not
  null. Removed from stack 2 instead, its \<open>stack\<close> is null while stack 1 still has it
  as a member.
\<close>

theorem stack_reference_drifts:
  "map card_stack
     (cards (snd (cards_remove
        (snd (cards_add (snd (cards_add stacks_store sample_stack [3]))
                (sample_stack\<lparr>card_id := Some 2\<rparr>) [3]))
        sample_stack [3]))) = [None, None, Some 2] \<and>
   map card_stack
     (cards (snd (cards_remove
        (snd (cards_add (snd (cards_add stacks_store sample_stack [3]))
                (sample_stack\<lparr>card_id := Some 2\<rparr>) [3]))
        (sample_stack\<lparr>card_id := Some 2\<rparr>) [3]))) = [None, None, None] \<and>
   card_cards (snd (cards_remove
        (snd (cards_add (snd (cards_add stacks_store sample_stack [3]))
                (sample_stack\<lparr>card_id := Some 2\<rparr>) [3]))
        (sample_stack\<lparr>card_id := Some 2\<rparr>) [3])) = [(1, 3)]"
  by (simp add: cards_remove_def cards_add_def cards_changed_def pk_in_def stacks_store_def
      sample_store_def sample_stack_def sample_file_def Let_def)

lemma cards_add_Inr:
  "cards_add s instance pks = (Inr (), s') \<longleftrightarrow>
     (\<exists>k. card_id instance = Some k \<and>
        s' = s\<lparr>card_cards := card_cards s @
                   map (Pair k) (filter (\<lambda>p. (k, p) \<notin> set (card_cards s)) (remdups pks)),
                cards := map (\<lambda>c. if pk_in c (filter (\<lambda>p. (k, p) \<notin> set (card_cards s))
                                                     (remdups pks))
                                   then c\<lparr>card_stack := Some k\<rparr> else c) (cards s)\<rparr>)"
  by (auto simp: cards_add_def cards_changed_def Let_def split: option.splits)

lemma cards_remove_Inr:
  "cards_remove s instance pks = (Inr (), s') \<longleftrightarrow>
     (\<exists>k. card_id instance = Some k \<and>
        s' = s\<lparr>card_cards := filter (\<lambda>(a, b). \<not> (a = k \<and> b \<in> set pks)) (card_cards s),
                cards := map (\<lambda>c. if pk_in c pks \<and> card_stack c = Some k
                                   then c\<lparr>card_stack := None\<rparr> else c) (cards s)\<rparr>)"
  by (auto simp: cards_remove_def cards_changed_def pk_in_def Let_def split: option.splits)

lemma cards_clear_Inr:
  "cards_clear s instance = (Inr (), s') \<longleftrightarrow>
     (\<exists>k. card_id instance = Some k \<and>
        s' = s\<lparr>card_cards := filter (\<lambda>(a, b). a \<noteq> k) (card_cards s),
                cards := map (\<lambda>c. if card_stack c = Some k
                                   then c\<lparr>card_stack := None\<rparr> else c) (cards s)\<rparr>)"
  by (auto simp: cards_clear_def cards_changed_def Let_def split: option.splits)

lemma cards_add_keeps:
  assumes "stack_refs_members s" and "cards_add s instance pks = (Inr (), s')"
  shows "stack_refs_members s'"
  using assms
  by (auto simp: cards_add_Inr stack_refs_members_def list_all_iff pk_in_def
      split: option.splits)

lemma cards_remove_keeps:
  assumes "stack_refs_members s" and "cards_remove s instance pks = (Inr (), s')"
  shows "stack_refs_members s'"
  using assms
  by (auto simp: cards_remove_Inr stack_refs_members_def list_all_iff pk_in_def
      split: option.splits)

lemma cards_clear_keeps:
  assumes "stack_refs_members s" and "cards_clear s instance = (Inr (), s')"
  shows "stack_refs_members s'"
  using assms
  by (auto simp: cards_clear_Inr stack_refs_members_def list_all_iff
      split: option.splits)


text \<open>
  C7, amended. Adding cards to the member set of stack \<open>S\<close> sets \<open>stack\<close> to \<open>S\<close> for
  the cards that were not members yet. Removing cards from the set sets \<open>stack\<close> to null
  for those of them whose \<open>stack\<close> is \<open>S\<close> and changes no other card; clearing the set
  sets \<open>stack\<close> to null for the cards whose \<open>stack\<close> is \<open>S\<close> and changes no other card.
  If every card whose \<open>stack\<close> is not null is a member of that stack before one of
  the three operations, it is so after it. Each operation returns for a stored stack.
\<close>

theorem member_set_back_reference:
  "(cards_add s S pks = (Inr (), s') \<longrightarrow>
      (\<forall>k. card_id S = Some k \<longrightarrow>
         card_cards s' = card_cards s @
           map (Pair k) (filter (\<lambda>p. (k, p) \<notin> set (card_cards s)) (remdups pks)) \<and>
         cards s' = map (\<lambda>c. if pk_in c (filter (\<lambda>p. (k, p) \<notin> set (card_cards s)) pks)
                              then c\<lparr>card_stack := Some k\<rparr> else c) (cards s))) \<and>
   (cards_remove s S pks = (Inr (), s') \<longrightarrow>
      cards s' = map (\<lambda>c. if pk_in c pks \<and> card_stack c = card_id S
                           then c\<lparr>card_stack := None\<rparr> else c) (cards s)) \<and>
   (cards_clear s S = (Inr (), s') \<longrightarrow>
      cards s' = map (\<lambda>c. if card_stack c = card_id S
                           then c\<lparr>card_stack := None\<rparr> else c) (cards s)) \<and>
   (stack_refs_members s \<and>
    (cards_add s S pks = (Inr (), s') \<or> cards_remove s S pks = (Inr (), s') \<or>
     cards_clear s S = (Inr (), s')) \<longrightarrow>
      stack_refs_members s') \<and>
   (card_id S \<noteq> None \<longrightarrow>
      (\<exists>s1. cards_add s S pks = (Inr (), s1)) \<and>
      (\<exists>s1. cards_remove s S pks = (Inr (), s1)) \<and>
      (\<exists>s1. cards_clear s S = (Inr (), s1)))"
proof -
  have p1: "cards_add s S pks = (Inr (), s') \<longrightarrow>
      (\<forall>k. card_id S = Some k \<longrightarrow>
         card_cards s' = card_cards s @
           map (Pair k) (filter (\<lambda>p. (k, p) \<notin> set (card_cards s)) (remdups pks)) \<and>
         cards s' = map (\<lambda>c. if pk_in c (filter (\<lambda>p. (k, p) \<notin> set (card_cards s)) pks)
                              then c\<lparr>card_stack := Some k\<rparr> else c) (cards s))"
    by (auto simp: cards_add_Inr pk_in_def split: option.splits)
  have p2: "cards_remove s S pks = (Inr (), s') \<longrightarrow>
      cards s' = map (\<lambda>c. if pk_in c pks \<and> card_stack c = card_id S
                           then c\<lparr>card_stack := None\<rparr> else c) (cards s)"
    by (auto simp: cards_remove_Inr)
  have p3: "cards_clear s S = (Inr (), s') \<longrightarrow>
      cards s' = map (\<lambda>c. if card_stack c = card_id S
                           then c\<lparr>card_stack := None\<rparr> else c) (cards s)"
    by (auto simp: cards_clear_Inr)
  have p4: "stack_refs_members s \<and>
    (cards_add s S pks = (Inr (), s') \<or> cards_remove s S pks = (Inr (), s') \<or>
     cards_clear s S = (Inr (), s')) \<longrightarrow>
      stack_refs_members s'"
    using cards_add_keeps [of s S pks s'] cards_remove_keeps [of s S pks s']
      cards_clear_keeps [of s S s']
    by blast
  have p5: "card_id S \<noteq> None \<longrightarrow>
      (\<exists>s1. cards_add s S pks = (Inr (), s1)) \<and>
      (\<exists>s1. cards_remove s S pks = (Inr (), s1)) \<and>
      (\<exists>s1. cards_clear s S = (Inr (), s1))"
    by (auto simp: cards_add_def cards_remove_def cards_clear_def Let_def)
  show ?thesis by (rule conjI [OF p1 conjI [OF p2 conjI [OF p3 conjI [OF p4 p5]]]])
qed

text \<open>
  In the store of two stacks: card 3 added to stack 1 points to stack 1; removed again, or
  after stack 1 is cleared, it points to no stack; and the back-references agree with the
  member sets throughout.
\<close>

theorem member_set_back_reference_witness:
  "\<exists>s1 s2. cards_add stacks_store sample_stack [3] = (Inr (), s1) \<and>
     map card_stack (cards s1) = [None, None, Some 1] \<and>
     card_cards s1 = [(1, 3)] \<and>
     stack_refs_members s1 \<and>
     cards_remove s1 sample_stack [3] = (Inr (), s2) \<and>
     map card_stack (cards s2) = [None, None, None] \<and>
     stack_refs_members s2 \<and>
     (\<exists>s3. cards_clear s1 sample_stack = (Inr (), s3) \<and>
        map card_stack (cards s3) = [None, None, None])"
proof -
  have id: "card_id sample_stack \<noteq> None" "card_id sample_stack = Some 1"
    by (simp_all add: sample_stack_def)
  have inv0: "stack_refs_members stacks_store"
    by (simp add: stack_refs_members_def stacks_store_def sample_store_def sample_stack_def
        sample_file_def)
  from member_set_back_reference [where s = stacks_store and S = sample_stack and pks = "[3]"]
    id(1)
  obtain s1 where a: "cards_add stacks_store sample_stack [3] = (Inr (), s1)" by blast
  from member_set_back_reference
    [where s = stacks_store and S = sample_stack and pks = "[3]" and s' = s1] a id(2) inv0
  have c1: "cards s1 = map (\<lambda>c. if pk_in c (filter (\<lambda>p. (1, p) \<notin> set (card_cards stacks_store)) [3])
                              then c\<lparr>card_stack := Some 1\<rparr> else c) (cards stacks_store)"
    and m1: "card_cards s1 = card_cards stacks_store @
           map (Pair 1) (filter (\<lambda>p. (1, p) \<notin> set (card_cards stacks_store)) (remdups [3]))"
    and inv1: "stack_refs_members s1"
    by blast+
  from c1 have v1: "map card_stack (cards s1) = [None, None, Some 1]"
    by (simp add: pk_in_def stacks_store_def sample_store_def sample_stack_def sample_file_def)
  from m1 have w1: "card_cards s1 = [(1, 3)]"
    by (simp add: stacks_store_def sample_store_def)
  from member_set_back_reference [where s = s1 and S = sample_stack and pks = "[3]"] id(1)
  obtain s2 where r: "cards_remove s1 sample_stack [3] = (Inr (), s2)" by blast
  from member_set_back_reference
    [where s = s1 and S = sample_stack and pks = "[3]" and s' = s2] r inv1
  have c2: "cards s2 = map (\<lambda>c. if pk_in c [3] \<and> card_stack c = card_id sample_stack
                           then c\<lparr>card_stack := None\<rparr> else c) (cards s1)"
    and inv2: "stack_refs_members s2"
    by blast+
  from c2 c1 have v2: "map card_stack (cards s2) = [None, None, None]"
    by (simp add: pk_in_def stacks_store_def sample_store_def sample_stack_def sample_file_def)
  from member_set_back_reference [where s = s1 and S = sample_stack and pks = "[]"] id(1)
  obtain s3 where cl: "cards_clear s1 sample_stack = (Inr (), s3)" by blast
  from member_set_back_reference
    [where s = s1 and S = sample_stack and pks = "[]" and s' = s3] cl
  have c3: "cards s3 = map (\<lambda>c. if card_stack c = card_id sample_stack
                           then c\<lparr>card_stack := None\<rparr> else c) (cards s1)"
    by blast
  from c3 c1 have v3: "map card_stack (cards s3) = [None, None, None]"
    by (simp add: pk_in_def stacks_store_def sample_store_def sample_stack_def sample_file_def)
  with cl have "\<exists>s3. cards_clear s1 sample_stack = (Inr (), s3) \<and>
        map card_stack (cards s3) = [None, None, None]"
    by (intro exI [of _ s3]) simp
  with a v1 w1 inv1 r v2 inv2 show ?thesis
    by (intro exI [of _ s1] exI [of _ s2]) simp
qed

end
